theory Spec2Isabelle
  imports Main "HOL-Library.AList" "HOL-Library.Monad_Syntax"
begin

section \<open>Values, errors and records (types.go)\<close>

text \<open>
  A Go value of type \<open>interface{}\<close>, by dynamic type. \<open>GStrings\<close> is a \<open>[]string\<close>,
  \<open>GSlice\<close> a \<open>[]interface{}\<close>, \<open>GMap\<close> a \<open>map[string]interface{}\<close> (listed in
  one order; a nil map and an empty one are both the empty list), \<open>GFloat64 n\<close> a
  \<open>float64\<close> holding the whole number \<open>n\<close>.
\<close>

datatype gval =
    GNil
  | GBool bool
  | GInt int
  | GFloat64 int
  | GString string
  | GStrings "string list"
  | GSlice "gval list"
  | GMap "(string \<times> gval) list"

text \<open>
  The errors of types.go (\<open>Common errors\<close>), and the two errors of the
  password-hashing library that the repository hands on as they are:
  \<open>WeakParameterError\<close> for a cost the library rejects (the library's
  \<open>InvalidCostError\<close>, under the spec's name) and \<open>ErrPasswordTooLong\<close> for a
  password of more than 72 bytes.
\<close>

datatype error =
    ErrUserNotFound
  | ErrInvalidPassword
  | ErrUserAlreadyExists
  | ErrInvalidToken
  | ErrTokenExpired
  | ErrUnauthorized
  | ErrInsufficientRole
  | WeakParameterError int
  | ErrPasswordTooLong

text \<open>Instants are nanoseconds since the Unix epoch; durations are nanoseconds.\<close>

type_synonym instant = int
type_synonym duration = int

record Config =
  JWTSecret :: string
  TokenExpiry :: string
  RefreshExpiry :: string
  BCryptCost :: int
  RateLimitRPM :: int
  EmailRequired :: bool

record User =
  ID :: string
  Email :: string
  Password :: string
  Name :: string
  Role :: string
  Permissions :: "string list"
  EmailVerified :: bool
  CreatedAt :: instant
  UpdatedAt :: instant
  Metadata :: "(string \<times> gval) list"

record UserInfo =
  InfoID :: string
  InfoEmail :: string
  InfoName :: string
  InfoRole :: string
  InfoPermissions :: "string list"
  InfoEmailVerified :: bool
  InfoMetadata :: "(string \<times> gval) list"

record RegisterRequest =
  ReqEmail :: string
  ReqPassword :: string
  ReqName :: string
  ReqRole :: string
  ReqMetadata :: "(string \<times> gval) list"

text \<open>
  The in-memory directory \<open>map[string]*User\<close>, as an association list from user id to
  record. Go ranges over a map in no fixed order; the model ranges in list order.
\<close>

type_synonym directory = "(string \<times> User) list"

record AuthKit =
  config :: Config
  users :: directory

section \<open>Tokens as data\<close>

text \<open>
  A JSON document, as the token payload carries it. Numbers are whole (the payloads of
  this repository carry whole seconds).
\<close>

datatype json =
    JNull
  | JBool bool
  | JNum int
  | JStr string
  | JArr "json list"
  | JObj "(string \<times> json) list"

type_synonym payload = "string \<rightharpoonup> json"

text \<open>
  A compact token: header algorithm, payload, signature segment. \<open>Malformed s\<close> is a
  string \<open>s\<close> that is not three base64url segments around a JSON header and a JSON
  object.
\<close>

datatype token =
    Malformed string
  | Compact string payload string

section \<open>The libraries the repository calls\<close>

text \<open>
  The functions of golang.org/x/crypto/bcrypt, of the standard library and of the MAC
  behind github.com/golang-jwt/jwt are not part of the repository; they are parameters
  of the model, gathered in one record.
  \<^item> \<open>GenerateFromPassword password cost\<close> is the hash, or the library's error;
  \<open>CompareHashAndPassword hash password\<close> holds when the library returns no error.
  \<^item> \<open>ParseDuration s\<close> is \<open>None\<close> when \<open>time.ParseDuration\<close> returns an error (the
  duration it returns then is 0), and the duration otherwise.
  \<^item> \<open>Sign alg key p\<close> is the signature segment that the HMAC method \<open>alg\<close> computes
  under \<open>key\<close> for the header and payload \<open>p\<close>; verification recomputes it and
  compares.
\<close>

record library =
  GenerateFromPassword :: "string \<Rightarrow> int \<Rightarrow> error + string"
  CompareHashAndPassword :: "string \<Rightarrow> string \<Rightarrow> bool"
  ParseDuration :: "string \<Rightarrow> duration option"
  Sign :: "string \<Rightarrow> string \<Rightarrow> payload \<Rightarrow> string"

section \<open>Password hashing (password.go)\<close>

definition HashPassword :: "library \<Rightarrow> AuthKit \<Rightarrow> string \<Rightarrow> error + string" where
  "HashPassword L a password =
     (case GenerateFromPassword L password (BCryptCost (config a)) of
        Inl err \<Rightarrow> Inl err
      | Inr hashedBytes \<Rightarrow> Inr hashedBytes)"

definition ComparePassword :: "library \<Rightarrow> AuthKit \<Rightarrow> string \<Rightarrow> string \<Rightarrow> bool" where
  "ComparePassword L a hashedPassword password = CompareHashAndPassword L hashedPassword password"

definition HashPasswordStatic :: "library \<Rightarrow> string \<Rightarrow> int \<Rightarrow> error + string" where
  "HashPasswordStatic L password cost =
     (let cost' = (if cost = 0 then 12 else cost) in
      case GenerateFromPassword L password cost' of
        Inl err \<Rightarrow> Inl err
      | Inr hashedBytes \<Rightarrow> Inr hashedBytes)"

text \<open>
  What \<open>bcrypt.GenerateFromPassword\<close> does before it hashes, as
  golang.org/x/crypto/bcrypt documents it (the library is not part of the repository).
  It first refuses a password of more than 72 bytes with \<open>ErrPasswordTooLong\<close>,
  whatever the cost. Then \<open>MinCost\<close> and \<open>MaxCost\<close> bound the costs it accepts (the
  repository's documentation names the same range, 4 to 31): a cost below \<open>MinCost\<close>
  is replaced by \<open>DefaultCost\<close>, and a cost above \<open>MaxCost\<close> is an error, the spec's
  \<open>WeakParameterError\<close>. The length of a \<open>string\<close> counts bytes.
\<close>

definition MinCost :: int where "MinCost = 4"
definition MaxCost :: int where "MaxCost = 31"
definition DefaultCost :: int where "DefaultCost = 10"
definition MaxPasswordLength :: nat where "MaxPasswordLength = 72"

definition cost_supported :: "int \<Rightarrow> bool" where
  "cost_supported c = (MinCost \<le> c \<and> c \<le> MaxCost)"

definition bcrypt_cost_handling :: "library \<Rightarrow> bool" where
  "bcrypt_cost_handling L =
     ((\<forall>p c. MaxPasswordLength < length p \<longrightarrow>
          GenerateFromPassword L p c = Inl ErrPasswordTooLong)
      \<and> (\<forall>p c. c < MinCost \<longrightarrow>
          GenerateFromPassword L p c = GenerateFromPassword L p DefaultCost)
      \<and> (\<forall>p c. length p \<le> MaxPasswordLength \<and> MaxCost < c \<longrightarrow>
          GenerateFromPassword L p c = Inl (WeakParameterError c)))"

section \<open>The user directory and the credential service (types.go)\<close>

definition New :: "Config \<Rightarrow> AuthKit" where
  "New cfg =
     (let c1 = (if BCryptCost cfg = 0 then cfg\<lparr>BCryptCost := 12\<rparr> else cfg);
          c2 = (if TokenExpiry c1 = [] then c1\<lparr>TokenExpiry := ''24h''\<rparr> else c1);
          c3 = (if RefreshExpiry c2 = [] then c2\<lparr>RefreshExpiry := ''7d''\<rparr> else c2);
          c4 = (if RateLimitRPM c3 = 0 then c3\<lparr>RateLimitRPM := 60\<rparr> else c3)
      in \<lparr>config = c4, users = []\<rparr>)"

definition userToUserInfo :: "User \<Rightarrow> UserInfo" where
  "userToUserInfo user =
     \<lparr>InfoID = ID user, InfoEmail = Email user, InfoName = Name user, InfoRole = Role user,
      InfoPermissions = Permissions user, InfoEmailVerified = EmailVerified user,
      InfoMetadata = Metadata user\<rparr>"

text \<open>
  \<open>RegisterUser\<close> reads the clock (\<open>now\<close>, one reading for the call) and draws a
  fresh identifier (\<open>userID\<close>, the value of \<open>uuid.New().String()\<close>); both are inputs
  of the model. The result is the returned pair and the directory after the call.
\<close>

definition RegisterUser ::
  "library \<Rightarrow> AuthKit \<Rightarrow> instant \<Rightarrow> string \<Rightarrow> RegisterRequest \<Rightarrow> (error + UserInfo) \<times> AuthKit"
where
  "RegisterUser L a now userID req =
     (if list_ex (\<lambda>(k, user). Email user = ReqEmail req) (users a)
      then (Inl ErrUserAlreadyExists, a)
      else case HashPassword L a (ReqPassword req) of
        Inl err \<Rightarrow> (Inl err, a)
      | Inr hashedPassword \<Rightarrow>
          let user = \<lparr>ID = userID, Email = ReqEmail req, Password = hashedPassword,
                      Name = ReqName req, Role = ReqRole req, Permissions = [],
                      EmailVerified = (\<not> EmailRequired (config a)),
                      CreatedAt = now, UpdatedAt = now, Metadata = ReqMetadata req\<rparr>;
              user = (if Role user = [] then user\<lparr>Role := ''user''\<rparr> else user)
          in (Inr (userToUserInfo user), a\<lparr>users := AList.update userID user (users a)\<rparr>))"

definition GetUserByID :: "AuthKit \<Rightarrow> string \<Rightarrow> error + User" where
  "GetUserByID a userID =
     (case map_of (users a) userID of
        None \<Rightarrow> Inl ErrUserNotFound
      | Some user \<Rightarrow> Inr user)"

definition GetUserByEmail :: "AuthKit \<Rightarrow> string \<Rightarrow> error + User" where
  "GetUserByEmail a email =
     (case find (\<lambda>(k, user). Email user = email) (users a) of
        Some (k, user) \<Rightarrow> Inr user
      | None \<Rightarrow> Inl ErrUserNotFound)"

text \<open>
  The four type assertions of \<open>UpdateUser\<close>: \<open>updates["name"].(string)\<close> and its
  siblings succeed only on the exact dynamic type; a missing key yields the nil interface,
  on which every assertion fails.
\<close>

fun assert_string :: "gval option \<Rightarrow> string option" where
  "assert_string (Some (GString s)) = Some s"
| "assert_string _ = None"

fun assert_strings :: "gval option \<Rightarrow> string list option" where
  "assert_strings (Some (GStrings xs)) = Some xs"
| "assert_strings _ = None"

fun assert_map :: "gval option \<Rightarrow> (string \<times> gval) list option" where
  "assert_map (Some (GMap m)) = Some m"
| "assert_map _ = None"

definition apply_updates :: "instant \<Rightarrow> (string \<rightharpoonup> gval) \<Rightarrow> User \<Rightarrow> User" where
  "apply_updates now updates user =
     (let u1 = (case assert_string (updates ''name'') of
                  Some name \<Rightarrow> user\<lparr>Name := name\<rparr> | None \<Rightarrow> user);
          u2 = (case assert_string (updates ''role'') of
                  Some role \<Rightarrow> u1\<lparr>Role := role\<rparr> | None \<Rightarrow> u1);
          u3 = (case assert_strings (updates ''permissions'') of
                  Some permissions \<Rightarrow> u2\<lparr>Permissions := permissions\<rparr> | None \<Rightarrow> u2);
          u4 = (case assert_map (updates ''metadata'') of
                  Some metadata \<Rightarrow> u3\<lparr>Metadata := metadata\<rparr> | None \<Rightarrow> u3)
      in u4\<lparr>UpdatedAt := now\<rparr>)"

definition UpdateUser ::
  "AuthKit \<Rightarrow> instant \<Rightarrow> string \<Rightarrow> (string \<rightharpoonup> gval) \<Rightarrow> (error + UserInfo) \<times> AuthKit"
where
  "UpdateUser a now userID updates =
     (case map_of (users a) userID of
        None \<Rightarrow> (Inl ErrUserNotFound, a)
      | Some user \<Rightarrow>
          let user' = apply_updates now updates user
          in (Inr (userToUserInfo user'), a\<lparr>users := AList.update userID user' (users a)\<rparr>))"

definition DeleteUser :: "AuthKit \<Rightarrow> string \<Rightarrow> error option \<times> AuthKit" where
  "DeleteUser a userID =
     (case map_of (users a) userID of
        None \<Rightarrow> (Some ErrUserNotFound, a)
      | Some user \<Rightarrow> (None, a\<lparr>users := AList.delete userID (users a)\<rparr>))"

definition ListUsers :: "AuthKit \<Rightarrow> UserInfo list" where
  "ListUsers a = map (\<lambda>(k, user). userToUserInfo user) (users a)"

section \<open>Valid UTF-8 (unicode/utf8)\<close>

text \<open>
  A Go string is any sequence of bytes. \<open>rune_len bs\<close> is the number of bytes of the
  well-formed UTF-8 sequence at the head of \<open>bs\<close>, and 0 when there is none, by the
  table of the standard library: the first byte fixes the length and the range of the
  second byte, every further byte is a continuation byte. \<open>valid_utf8 s\<close> is
  \<open>utf8.ValidString(s)\<close>.
\<close>

definition continuation :: "nat \<Rightarrow> bool" where
  "continuation b = (0x80 \<le> b \<and> b \<le> 0xBF)"

definition tail_ok :: "nat \<Rightarrow> nat \<Rightarrow> nat \<Rightarrow> nat list \<Rightarrow> bool" where
  "tail_ok lo hi n bs =
     (case bs of
        [] \<Rightarrow> False
      | c # cs \<Rightarrow> lo \<le> c \<and> c \<le> hi \<and> n \<le> length cs \<and> list_all continuation (take n cs))"

fun rune_len :: "nat list \<Rightarrow> nat" where
  "rune_len [] = 0"
| "rune_len (b # bs) =
     (if b < 0x80 then 1
      else if 0xC2 \<le> b \<and> b \<le> 0xDF then (if tail_ok 0x80 0xBF 0 bs then 2 else 0)
      else if b = 0xE0 then (if tail_ok 0xA0 0xBF 1 bs then 3 else 0)
      else if b = 0xED then (if tail_ok 0x80 0x9F 1 bs then 3 else 0)
      else if 0xE1 \<le> b \<and> b \<le> 0xEF then (if tail_ok 0x80 0xBF 1 bs then 3 else 0)
      else if b = 0xF0 then (if tail_ok 0x90 0xBF 2 bs then 4 else 0)
      else if 0xF1 \<le> b \<and> b \<le> 0xF3 then (if tail_ok 0x80 0xBF 2 bs then 4 else 0)
      else if b = 0xF4 then (if tail_ok 0x80 0x8F 2 bs then 4 else 0)
      else 0)"

function valid_bytes :: "nat list \<Rightarrow> bool" where
  "valid_bytes bs =
     (if bs = [] then True
      else if rune_len bs = 0 then False
      else valid_bytes (drop (rune_len bs) bs))"
  by pat_completeness auto
termination
  by (relation "measure length") auto

declare valid_bytes.simps [simp del]

definition valid_utf8 :: "string \<Rightarrow> bool" where
  "valid_utf8 s = valid_bytes (map of_char s)"

section \<open>JSON encoding of claims (encoding/json, as the token library uses it)\<close>

text \<open>
  \<open>json.Marshal\<close> of an \<open>interface{}\<close> value, and \<open>json.Unmarshal\<close> into an
  \<open>interface{}\<close>: a number comes back as a \<open>float64\<close>, an array as a
  \<open>[]interface{}\<close>.

  Strings are written as they are, here and in the struct encoders below. That is what
  \<open>json.Marshal\<close> does to a string of valid UTF-8; in any other string it replaces each
  offending byte by U+FFFD, which the model leaves out. A statement that reads a
  caller's string back from a token therefore assumes \<open>valid_utf8\<close> of it.
\<close>

primrec to_json :: "gval \<Rightarrow> json" where
  "to_json GNil = JNull"
| "to_json (GBool b) = JBool b"
| "to_json (GInt n) = JNum n"
| "to_json (GFloat64 n) = JNum n"
| "to_json (GString s) = JStr s"
| "to_json (GStrings xs) = JArr (map JStr xs)"
| "to_json (GSlice vs) = JArr (map to_json vs)"
| "to_json (GMap kvs) = JObj (map (map_prod id to_json) kvs)"

primrec from_json :: "json \<Rightarrow> gval" where
  "from_json JNull = GNil"
| "from_json (JBool b) = GBool b"
| "from_json (JNum n) = GFloat64 n"
| "from_json (JStr s) = GString s"
| "from_json (JArr vs) = GSlice (map from_json vs)"
| "from_json (JObj kvs) = GMap (map (map_prod id from_json) kvs)"

text \<open>
  The registered claims of the token library, and the \<open>Claims\<close> struct of types.go that
  embeds them. Dates are whole seconds since the epoch (the library's precision), absent
  when the pointer is nil.
\<close>

record RegisteredClaims =
  Issuer :: string
  Subject :: string
  Audience :: "string list"
  ExpiresAt :: "int option"
  NotBefore :: "int option"
  IssuedAt :: "int option"
  JwtID :: string

record Claims =
  UserID :: string
  ClaimEmail :: string
  ClaimRole :: string
  ClaimPermissions :: "string list"
  ClaimMetadata :: "(string \<times> gval) list"
  Registered :: RegisteredClaims

text \<open>
  Decoding one member of the payload into a struct field: a missing member and \<open>null\<close>
  leave the field at its zero value, a value of another JSON type is an error
  (\<open>None\<close>). The audience accepts one string or an array of strings. Decoding matches
  member names exactly; the library's fallback to a case-insensitive match, and a date
  given as a quoted number, are left out.
\<close>

fun field_string :: "json option \<Rightarrow> string option" where
  "field_string None = Some []"
| "field_string (Some JNull) = Some []"
| "field_string (Some (JStr s)) = Some s"
| "field_string (Some _) = None"

fun elem_string :: "json \<Rightarrow> string option" where
  "elem_string (JStr s) = Some s"
| "elem_string JNull = Some []"
| "elem_string _ = None"

fun field_strings :: "json option \<Rightarrow> string list option" where
  "field_strings None = Some []"
| "field_strings (Some JNull) = Some []"
| "field_strings (Some (JArr vs)) = those (map elem_string vs)"
| "field_strings (Some _) = None"

fun strict_string :: "json \<Rightarrow> string option" where
  "strict_string (JStr s) = Some s"
| "strict_string _ = None"

fun field_claim_strings :: "json option \<Rightarrow> string list option" where
  "field_claim_strings None = Some []"
| "field_claim_strings (Some JNull) = Some []"
| "field_claim_strings (Some (JStr s)) = Some [s]"
| "field_claim_strings (Some (JArr vs)) = those (map strict_string vs)"
| "field_claim_strings (Some _) = None"

fun field_date :: "json option \<Rightarrow> int option option" where
  "field_date None = Some None"
| "field_date (Some JNull) = Some None"
| "field_date (Some (JNum n)) = Some (Some n)"
| "field_date (Some _) = None"

fun field_object :: "json option \<Rightarrow> (string \<times> gval) list option" where
  "field_object None = Some []"
| "field_object (Some JNull) = Some []"
| "field_object (Some (JObj kvs)) = Some (map (map_prod id from_json) kvs)"
| "field_object (Some _) = None"

definition decode_registered :: "payload \<Rightarrow> RegisteredClaims option" where
  "decode_registered p =
     do {
       iss \<leftarrow> field_string (p ''iss'');
       sub \<leftarrow> field_string (p ''sub'');
       aud \<leftarrow> field_claim_strings (p ''aud'');
       expires \<leftarrow> field_date (p ''exp'');
       nbf \<leftarrow> field_date (p ''nbf'');
       iat \<leftarrow> field_date (p ''iat'');
       jti \<leftarrow> field_string (p ''jti'');
       Some \<lparr>Issuer = iss, Subject = sub, Audience = aud, ExpiresAt = expires,
             NotBefore = nbf, IssuedAt = iat, JwtID = jti\<rparr>
     }"

definition decode_claims :: "payload \<Rightarrow> Claims option" where
  "decode_claims p =
     do {
       uid \<leftarrow> field_string (p ''user_id'');
       email \<leftarrow> field_string (p ''email'');
       role \<leftarrow> field_string (p ''role'');
       perms \<leftarrow> field_strings (p ''permissions'');
       meta \<leftarrow> field_object (p ''metadata'');
       rc \<leftarrow> decode_registered p;
       Some \<lparr>UserID = uid, ClaimEmail = email, ClaimRole = role, ClaimPermissions = perms,
             ClaimMetadata = meta, Registered = rc\<rparr>
     }"

text \<open>
  Encoding a struct: a member tagged \<open>omitempty\<close> is left out at its zero value; the
  audience is written as an array. A nil \<open>[]string\<close> is written \<open>null\<close> and an
  empty one \<open>[]\<close>; the model has one empty list for both and writes \<open>[]\<close>, and
  both decode to the empty list.
\<close>

definition obj_member :: "string \<Rightarrow> bool \<Rightarrow> json \<Rightarrow> payload" where
  "obj_member k present v = (if present then [k \<mapsto> v] else Map.empty)"

definition date_member :: "string \<Rightarrow> int option \<Rightarrow> payload" where
  "date_member k d = (case d of None \<Rightarrow> Map.empty | Some n \<Rightarrow> [k \<mapsto> JNum n])"

definition encode_registered :: "RegisteredClaims \<Rightarrow> payload" where
  "encode_registered rc =
     obj_member ''iss'' (Issuer rc \<noteq> []) (JStr (Issuer rc))
     ++ obj_member ''sub'' (Subject rc \<noteq> []) (JStr (Subject rc))
     ++ obj_member ''aud'' (Audience rc \<noteq> []) (JArr (map JStr (Audience rc)))
     ++ date_member ''exp'' (ExpiresAt rc)
     ++ date_member ''nbf'' (NotBefore rc)
     ++ date_member ''iat'' (IssuedAt rc)
     ++ obj_member ''jti'' (JwtID rc \<noteq> []) (JStr (JwtID rc))"

definition encode_claims :: "Claims \<Rightarrow> payload" where
  "encode_claims c =
     obj_member ''user_id'' True (JStr (UserID c))
     ++ obj_member ''email'' True (JStr (ClaimEmail c))
     ++ obj_member ''role'' True (JStr (ClaimRole c))
     ++ obj_member ''permissions'' True (JArr (map JStr (ClaimPermissions c)))
     ++ obj_member ''metadata'' (ClaimMetadata c \<noteq> [])
          (JObj (map (map_prod id to_json) (ClaimMetadata c)))
     ++ encode_registered (Registered c)"


section \<open>Signing and parsing (github.com/golang-jwt/jwt/v5, as the repository calls it)\<close>

definition second :: int where "second = 1000000000"
definition hour :: int where "hour = 3600 * second"

text \<open>
  \<open>jwt.NewNumericDate\<close> truncates an instant to whole seconds, as \<open>Time.Unix\<close> does.
\<close>

definition Unix :: "instant \<Rightarrow> int" where
  "Unix t = t div second"

definition NewNumericDate :: "instant \<Rightarrow> int option" where
  "NewNumericDate t = Some (Unix t)"

text \<open>
  \<open>jwt.NewWithClaims(jwt.SigningMethodHS256, claims).SignedString(key)\<close>; with a byte
  key and claims of these types it returns no error.
\<close>

definition SignedString :: "library \<Rightarrow> string \<Rightarrow> payload \<Rightarrow> error + token" where
  "SignedString L key p = Inr (Compact ''HS256'' p (Sign L ''HS256'' key p))"

datatype signing_method = SigningMethodHMAC string | SigningMethodOther string

definition GetSigningMethod :: "string \<Rightarrow> signing_method option" where
  "GetSigningMethod alg =
     (if alg \<in> set [''HS256'', ''HS384'', ''HS512''] then Some (SigningMethodHMAC alg)
      else if alg \<in> set [''RS256'', ''RS384'', ''RS512'', ''PS256'', ''PS384'', ''PS512'',
                           ''ES256'', ''ES384'', ''ES512'', ''EdDSA'', ''none'']
      then Some (SigningMethodOther alg)
      else None)"

datatype claim_failure = TokenExpired | TokenNotValidYet

datatype jwt_error =
    ErrTokenMalformed
  | ErrTokenUnverifiable
  | ErrTokenSignatureInvalid
  | ErrTokenInvalidClaims "claim_failure list"

text \<open>
  The library's default validator at the instant \<open>now\<close>: a token with an expiry is
  valid strictly before it, a token with a not-before from it on; issuer, audience and
  subject are checked only on request, and the repository requests none.
\<close>

definition validate_registered :: "instant \<Rightarrow> RegisteredClaims \<Rightarrow> claim_failure list" where
  "validate_registered now rc =
     (case ExpiresAt rc of
        None \<Rightarrow> []
      | Some e \<Rightarrow> if now < e * second then [] else [TokenExpired])
     @ (case NotBefore rc of
        None \<Rightarrow> []
      | Some n \<Rightarrow> if n * second \<le> now then [] else [TokenNotValidYet])"

text \<open>
  \<open>ParseWithClaims\<close>: decode the segments and the claims, find the signing method, ask
  the caller's key function for the key, verify the signature, validate the claims. A
  result \<open>Inr c\<close> is a token whose \<open>Valid\<close> flag is set.
\<close>

definition ParseWithClaims ::
  "library \<Rightarrow> instant \<Rightarrow> token \<Rightarrow> (payload \<Rightarrow> 'c option) \<Rightarrow> ('c \<Rightarrow> RegisteredClaims)
     \<Rightarrow> (signing_method \<Rightarrow> error + string) \<Rightarrow> jwt_error + 'c"
where
  "ParseWithClaims L now tokenString decode registered keyFunc =
     (case tokenString of
        Malformed s \<Rightarrow> Inl ErrTokenMalformed
      | Compact alg p sig \<Rightarrow>
          (case decode p of
             None \<Rightarrow> Inl ErrTokenMalformed
           | Some claims \<Rightarrow>
               (case GetSigningMethod alg of
                  None \<Rightarrow> Inl ErrTokenUnverifiable
                | Some m \<Rightarrow>
                    (case keyFunc m of
                       Inl err \<Rightarrow> Inl ErrTokenUnverifiable
                     | Inr key \<Rightarrow>
                         (case m of
                            SigningMethodOther n \<Rightarrow> Inl ErrTokenSignatureInvalid
                          | SigningMethodHMAC h \<Rightarrow>
                              if sig \<noteq> Sign L h key p then Inl ErrTokenSignatureInvalid
                              else (case validate_registered now (registered claims) of
                                      [] \<Rightarrow> Inr claims
                                    | fs \<Rightarrow> Inl (ErrTokenInvalidClaims fs)))))))"

section \<open>Issuing and validating tokens (the token file of package authkit)\<close>

text \<open>
  Each generator reads the clock (\<open>now\<close>, one reading for the call) and draws a fresh
  token identifier (\<open>jti\<close>, the value of \<open>uuid.New().String()\<close>).
\<close>

definition GenerateAccessToken ::
  "library \<Rightarrow> AuthKit \<Rightarrow> instant \<Rightarrow> string \<Rightarrow> User \<Rightarrow> error + token"
where
  "GenerateAccessToken L a now jti user =
     (let duration = (case ParseDuration L (TokenExpiry (config a)) of
                        None \<Rightarrow> 24 * hour
                      | Some d \<Rightarrow> d);
          claims = \<lparr>UserID = ID user, ClaimEmail = Email user, ClaimRole = Role user,
                    ClaimPermissions = Permissions user, ClaimMetadata = Metadata user,
                    Registered =
                      \<lparr>Issuer = ''authkit'', Subject = ID user, Audience = [''authkit-users''],
                       ExpiresAt = NewNumericDate (now + duration),
                       NotBefore = NewNumericDate now,
                       IssuedAt = NewNumericDate now,
                       JwtID = jti\<rparr>\<rparr>
      in SignedString L (JWTSecret (config a)) (encode_claims claims))"

definition GenerateRefreshToken ::
  "library \<Rightarrow> AuthKit \<Rightarrow> instant \<Rightarrow> string \<Rightarrow> User \<Rightarrow> error + token"
where
  "GenerateRefreshToken L a now jti user =
     (let duration = (case ParseDuration L (RefreshExpiry (config a)) of
                        None \<Rightarrow> 7 * 24 * hour
                      | Some d \<Rightarrow> d);
          claims = \<lparr>Issuer = ''authkit-refresh'', Subject = ID user,
                    Audience = [''authkit-refresh''],
                    ExpiresAt = NewNumericDate (now + duration),
                    NotBefore = NewNumericDate now,
                    IssuedAt = NewNumericDate now,
                    JwtID = jti\<rparr>
      in SignedString L (JWTSecret (config a)) (encode_registered claims))"

text \<open>The key function both parsers pass: only an HMAC method gets the secret.\<close>

definition keyFunc :: "AuthKit \<Rightarrow> signing_method \<Rightarrow> error + string" where
  "keyFunc a m =
     (case m of
        SigningMethodHMAC h \<Rightarrow> Inr (JWTSecret (config a))
      | SigningMethodOther n \<Rightarrow> Inl ErrInvalidToken)"

definition ValidateToken :: "library \<Rightarrow> AuthKit \<Rightarrow> instant \<Rightarrow> token \<Rightarrow> error + Claims" where
  "ValidateToken L a now tokenString =
     (case ParseWithClaims L now tokenString decode_claims Registered (keyFunc a) of
        Inl err \<Rightarrow> Inl ErrInvalidToken
      | Inr claims \<Rightarrow> Inr claims)"

record TokenResponse =
  AccessToken :: token
  NewRefreshToken :: token
  TokenType :: string
  ExpiresIn :: int
  RespUser :: UserInfo

text \<open>
  \<open>int64(duration.Seconds())\<close>: whole seconds, rounded towards zero. (The floating-point
  step in between is exact below about 97 days.)
\<close>

definition Seconds :: "duration \<Rightarrow> int" where
  "Seconds d = (if 0 \<le> d then d div second else - ((- d) div second))"

definition reported_expiry :: "library \<Rightarrow> AuthKit \<Rightarrow> int" where
  "reported_expiry L a =
     (let duration = (case ParseDuration L (TokenExpiry (config a)) of
                        None \<Rightarrow> 0
                      | Some d \<Rightarrow> d)
      in Seconds duration)"

definition RefreshToken ::
  "library \<Rightarrow> AuthKit \<Rightarrow> instant \<Rightarrow> string \<Rightarrow> string \<Rightarrow> token \<Rightarrow> error + TokenResponse"
where
  "RefreshToken L a now jti1 jti2 refreshTokenString =
     (case ParseWithClaims L now refreshTokenString decode_registered id (keyFunc a) of
        Inl err \<Rightarrow> Inl ErrInvalidToken
      | Inr claims \<Rightarrow>
          (case GetUserByID a (Subject claims) of
             Inl err \<Rightarrow> Inl err
           | Inr user \<Rightarrow>
               (case GenerateAccessToken L a now jti1 user of
                  Inl err \<Rightarrow> Inl err
                | Inr accessToken \<Rightarrow>
                    (case GenerateRefreshToken L a now jti2 user of
                       Inl err \<Rightarrow> Inl err
                     | Inr newRefreshToken \<Rightarrow>
                         Inr \<lparr>AccessToken = accessToken, NewRefreshToken = newRefreshToken,
                              TokenType = ''Bearer'', ExpiresIn = reported_expiry L a,
                              RespUser = userToUserInfo user\<rparr>))))"

definition LoginUser ::
  "library \<Rightarrow> AuthKit \<Rightarrow> instant \<Rightarrow> string \<Rightarrow> string \<Rightarrow> string \<Rightarrow> string
     \<Rightarrow> error + TokenResponse"
where
  "LoginUser L a now jti1 jti2 email password =
     (case find (\<lambda>(k, u). Email u = email) (users a) of
        None \<Rightarrow> Inl ErrUserNotFound
      | Some (k, user) \<Rightarrow>
          if \<not> ComparePassword L a (Password user) password then Inl ErrInvalidPassword
          else (case GenerateAccessToken L a now jti1 user of
                  Inl err \<Rightarrow> Inl err
                | Inr accessToken \<Rightarrow>
                    (case GenerateRefreshToken L a now jti2 user of
                       Inl err \<Rightarrow> Inl err
                     | Inr refreshToken \<Rightarrow>
                         Inr \<lparr>AccessToken = accessToken, NewRefreshToken = refreshToken,
                              TokenType = ''Bearer'', ExpiresIn = reported_expiry L a,
                              RespUser = userToUserInfo user\<rparr>)))"


section \<open>Names for what the generators compute\<close>

text \<open>
  The lifetime each generator gives its token (the local \<open>duration\<close>), the claims it
  signs, and a payload signed under the configured secret.
\<close>

definition access_duration :: "library \<Rightarrow> AuthKit \<Rightarrow> duration" where
  "access_duration L a =
     (case ParseDuration L (TokenExpiry (config a)) of None \<Rightarrow> 24 * hour | Some d \<Rightarrow> d)"

definition refresh_duration :: "library \<Rightarrow> AuthKit \<Rightarrow> duration" where
  "refresh_duration L a =
     (case ParseDuration L (RefreshExpiry (config a)) of None \<Rightarrow> 7 * 24 * hour | Some d \<Rightarrow> d)"

definition access_claims :: "library \<Rightarrow> AuthKit \<Rightarrow> instant \<Rightarrow> string \<Rightarrow> User \<Rightarrow> Claims" where
  "access_claims L a now jti user =
     \<lparr>UserID = ID user, ClaimEmail = Email user, ClaimRole = Role user,
      ClaimPermissions = Permissions user, ClaimMetadata = Metadata user,
      Registered =
        \<lparr>Issuer = ''authkit'', Subject = ID user, Audience = [''authkit-users''],
         ExpiresAt = Some (Unix (now + access_duration L a)),
         NotBefore = Some (Unix now), IssuedAt = Some (Unix now), JwtID = jti\<rparr>\<rparr>"

definition refresh_claims ::
  "library \<Rightarrow> AuthKit \<Rightarrow> instant \<Rightarrow> string \<Rightarrow> User \<Rightarrow> RegisteredClaims"
where
  "refresh_claims L a now jti user =
     \<lparr>Issuer = ''authkit-refresh'', Subject = ID user, Audience = [''authkit-refresh''],
      ExpiresAt = Some (Unix (now + refresh_duration L a)),
      NotBefore = Some (Unix now), IssuedAt = Some (Unix now), JwtID = jti\<rparr>"

definition signed :: "library \<Rightarrow> AuthKit \<Rightarrow> payload \<Rightarrow> token" where
  "signed L a p = Compact ''HS256'' p (Sign L ''HS256'' (JWTSecret (config a)) p)"









section \<open>A stand-in library and a small directory, for evaluation\<close>

text \<open>
  One library that meets the descriptions above: it hashes by prefixing, handles the
  password length and the cost as documented, parses two duration strings and signs by naming algorithm and
  key. The theorems below hold for every library; this one serves where a statement is
  evaluated at a concrete input.
\<close>

definition stub_library :: library where
  "stub_library =
     \<lparr>GenerateFromPassword =
        (\<lambda>p c. if MaxPasswordLength < length p then Inl ErrPasswordTooLong
               else let c' = (if c < MinCost then DefaultCost else c)
                    in if MaxCost < c' then Inl (WeakParameterError c) else Inr (''hash:'' @ p)),
      CompareHashAndPassword = (\<lambda>h p. h = ''hash:'' @ p),
      ParseDuration =
        (\<lambda>s. if s = ''24h'' then Some (24 * hour) else if s = ''1h'' then Some hour else None),
      Sign = (\<lambda>alg key p. alg @ '':'' @ key)\<rparr>"

definition alice :: User where
  "alice =
     \<lparr>ID = ''u1'', Email = ''alice@example.com'', Password = ''hash:pw12345678'',
      Name = ''Alice'', Role = ''user'', Permissions = [], EmailVerified = True,
      CreatedAt = 0, UpdatedAt = 0, Metadata = []\<rparr>"

definition kit :: "string \<Rightarrow> AuthKit" where
  "kit expiry =
     (New \<lparr>JWTSecret = ''secret'', TokenExpiry = expiry, RefreshExpiry = ''7d'',
           BCryptCost = 4, RateLimitRPM = 0, EmailRequired = False\<rparr>)
     \<lparr>users := [(''u1'', alice)]\<rparr>"

definition emails_unique :: "directory \<Rightarrow> bool" where
  "emails_unique us = distinct (map (Email \<circ> snd) us)"

section \<open>The directory\<close>

lemma update_emails_subset:
  "(Email \<circ> snd) ` set (AList.update k v ps) \<subseteq> insert (Email v) ((Email \<circ> snd) ` set ps)"
  by (induction ps) auto

lemma update_emails_unique:
  "emails_unique ps \<Longrightarrow> Email v \<notin> (Email \<circ> snd) ` set ps \<Longrightarrow> emails_unique (AList.update k v ps)"
proof (induction ps)
  case Nil
  then show ?case by (simp add: emails_unique_def)
next
  case (Cons p ps)
  have sub: "(Email \<circ> snd) ` set (AList.update k v ps) \<subseteq> insert (Email v) ((Email \<circ> snd) ` set ps)"
    by (rule update_emails_subset)
  show ?case
  proof (cases "fst p = k")
    case True
    then show ?thesis using Cons.prems by (simp add: emails_unique_def)
  next
    case False
    have ih: "emails_unique (AList.update k v ps)"
      using Cons by (simp add: emails_unique_def)
    have "Email (snd p) \<notin> (Email \<circ> snd) ` set (AList.update k v ps)"
      using sub Cons.prems by (auto simp: emails_unique_def)
    then show ?thesis using False ih by (simp add: emails_unique_def)
  qed
qed

text \<open>
  C6. Registering with the email of a record already in the directory fails with
  \<open>ErrUserAlreadyExists\<close> (the spec's DuplicateEmailError) and leaves the directory as
  it was; and whatever the request, a directory whose emails are pairwise distinct stays
  so after \<open>RegisterUser\<close>.
\<close>

theorem RegisterUser_duplicate_email:
  "((\<exists>(k, u) \<in> set (users a). Email u = ReqEmail req) \<longrightarrow>
      RegisterUser L a now userID req = (Inl ErrUserAlreadyExists, a))
   \<and> (emails_unique (users a) \<longrightarrow>
      emails_unique (users (snd (RegisterUser L a now userID req))))"
proof (intro conjI impI)
  assume "\<exists>(k, u) \<in> set (users a). Email u = ReqEmail req"
  then show "RegisterUser L a now userID req = (Inl ErrUserAlreadyExists, a)"
    by (auto simp: RegisterUser_def list_ex_iff)
next
  assume u: "emails_unique (users a)"
  show "emails_unique (users (snd (RegisterUser L a now userID req)))"
  proof (cases "list_ex (\<lambda>(k, user). Email user = ReqEmail req) (users a)")
    case True
    then show ?thesis using u by (simp add: RegisterUser_def)
  next
    case False
    then have fresh: "ReqEmail req \<notin> (Email \<circ> snd) ` set (users a)"
      by (auto simp: list_ex_iff)
    show ?thesis
    proof (cases "HashPassword L a (ReqPassword req)")
      case (Inl err)
      then show ?thesis using u False by (simp add: RegisterUser_def)
    next
      case (Inr h)
      have "\<And>v. Email v = ReqEmail req \<Longrightarrow> emails_unique (AList.update userID v (users a))"
        using u fresh by (simp add: update_emails_unique)
      then show ?thesis using False Inr
        by (simp add: RegisterUser_def Let_def)
    qed
  qed
qed

theorem RegisterUser_duplicate_email_witness:
  "(\<exists>(k, u) \<in> set (users (kit ''1h'')). Email u = ''alice@example.com'')
   \<and> emails_unique (users (kit ''1h''))
   \<and> RegisterUser stub_library (kit ''1h'') 5 ''u2''
        \<lparr>ReqEmail = ''alice@example.com'', ReqPassword = ''another-password'',
         ReqName = ''Alice Again'', ReqRole = [], ReqMetadata = []\<rparr>
      = (Inl ErrUserAlreadyExists, kit ''1h'')
   \<and> emails_unique (users (snd (RegisterUser stub_library (kit ''1h'') 5 ''u2''
        \<lparr>ReqEmail = ''alice@example.com'', ReqPassword = ''another-password'',
         ReqName = ''Alice Again'', ReqRole = [], ReqMetadata = []\<rparr>)))"
proof -
  have h1: "\<exists>(k, u) \<in> set (users (kit ''1h'')). Email u = ''alice@example.com''"
    by (simp add: kit_def alice_def)
  have h2: "emails_unique (users (kit ''1h''))"
    by (simp add: kit_def emails_unique_def)
  show ?thesis
    using h1 h2 RegisterUser_duplicate_email [of "kit ''1h''"
        "\<lparr>ReqEmail = ''alice@example.com'', ReqPassword = ''another-password'',
         ReqName = ''Alice Again'', ReqRole = [], ReqMetadata = []\<rparr>" stub_library 5 "''u2''"]
    by simp
qed

lemma map_of_update_other:
  "k \<noteq> k' \<Longrightarrow> map_of (AList.update k' v ps) k = map_of ps k"
  by (simp add: update_conv')

lemma apply_updates_frame:
  "ID (apply_updates now updates u) = ID u
   \<and> Email (apply_updates now updates u) = Email u
   \<and> Password (apply_updates now updates u) = Password u
   \<and> EmailVerified (apply_updates now updates u) = EmailVerified u
   \<and> CreatedAt (apply_updates now updates u) = CreatedAt u
   \<and> UpdatedAt (apply_updates now updates u) = now"
  by (simp add: apply_updates_def Let_def split: option.splits)

lemma apply_updates_cong:
  "updates ''name'' = updates' ''name'' \<Longrightarrow> updates ''role'' = updates' ''role''
   \<Longrightarrow> updates ''permissions'' = updates' ''permissions''
   \<Longrightarrow> updates ''metadata'' = updates' ''metadata''
   \<Longrightarrow> apply_updates now updates u = apply_updates now updates' u"
  by (simp add: apply_updates_def)

text \<open>
  C7. For a stored user, \<open>UpdateUser\<close> succeeds and stores a record with the same id,
  email, password hash, verified flag and creation time, stamped with the time of the
  call; the other entries of the directory are as before; and two update maps that agree
  on the keys name, role, permissions and metadata give the same result, so every other
  key is ignored without error.
\<close>

theorem UpdateUser_frame:
  assumes "map_of (users a) userID = Some u"
  shows "(\<exists>u'. UpdateUser a now userID updates
               = (Inr (userToUserInfo u'), a\<lparr>users := AList.update userID u' (users a)\<rparr>)
            \<and> map_of (users (snd (UpdateUser a now userID updates))) userID = Some u'
            \<and> ID u' = ID u \<and> Email u' = Email u \<and> Password u' = Password u
            \<and> EmailVerified u' = EmailVerified u \<and> CreatedAt u' = CreatedAt u
            \<and> UpdatedAt u' = now)
       \<and> (\<forall>k. k \<noteq> userID \<longrightarrow>
            map_of (users (snd (UpdateUser a now userID updates))) k = map_of (users a) k)
       \<and> (\<forall>updates'. (\<forall>k \<in> {''name'', ''role'', ''permissions'', ''metadata''}.
                        updates k = updates' k)
            \<longrightarrow> UpdateUser a now userID updates = UpdateUser a now userID updates')"
proof (intro conjI)
  show "\<exists>u'. UpdateUser a now userID updates
               = (Inr (userToUserInfo u'), a\<lparr>users := AList.update userID u' (users a)\<rparr>)
            \<and> map_of (users (snd (UpdateUser a now userID updates))) userID = Some u'
            \<and> ID u' = ID u \<and> Email u' = Email u \<and> Password u' = Password u
            \<and> EmailVerified u' = EmailVerified u \<and> CreatedAt u' = CreatedAt u
            \<and> UpdatedAt u' = now"
    using assms apply_updates_frame [of now updates u]
    by (intro exI [of _ "apply_updates now updates u"])
       (simp add: UpdateUser_def Let_def update_conv')
  show "\<forall>k. k \<noteq> userID \<longrightarrow>
            map_of (users (snd (UpdateUser a now userID updates))) k = map_of (users a) k"
    using assms by (simp add: UpdateUser_def Let_def map_of_update_other)
  show "\<forall>updates'. (\<forall>k \<in> {''name'', ''role'', ''permissions'', ''metadata''}.
                        updates k = updates' k)
            \<longrightarrow> UpdateUser a now userID updates = UpdateUser a now userID updates'"
  proof (intro allI impI)
    fix updates'
    assume "\<forall>k \<in> {''name'', ''role'', ''permissions'', ''metadata''}. updates k = updates' k"
    then have "apply_updates now updates u = apply_updates now updates' u"
      by (intro apply_updates_cong) simp_all
    then show "UpdateUser a now userID updates = UpdateUser a now userID updates'"
      using assms by (simp add: UpdateUser_def Let_def)
  qed
qed

theorem UpdateUser_frame_witness:
  "map_of (users (kit ''1h'')) ''u1'' = Some alice
   \<and> (\<exists>u'. map_of (users (snd (UpdateUser (kit ''1h'') 7 ''u1''
               [''name'' \<mapsto> GString ''Al'', ''email'' \<mapsto> GString ''mallory@example.com'',
                ''password'' \<mapsto> GString ''x'', ''role'' \<mapsto> GInt 3]))) ''u1'' = Some u'
          \<and> ID u' = ''u1'' \<and> Email u' = ''alice@example.com''
          \<and> Password u' = ''hash:pw12345678'' \<and> CreatedAt u' = 0 \<and> UpdatedAt u' = 7)
   \<and> UpdateUser (kit ''1h'') 7 ''u1''
        [''name'' \<mapsto> GString ''Al'', ''email'' \<mapsto> GString ''mallory@example.com'',
         ''password'' \<mapsto> GString ''x'', ''role'' \<mapsto> GInt 3]
      = UpdateUser (kit ''1h'') 7 ''u1'' [''name'' \<mapsto> GString ''Al'']"
proof -
  have h: "map_of (users (kit ''1h'')) ''u1'' = Some alice"
    by (simp add: kit_def)
  have same: "\<forall>k \<in> {''name'', ''role'', ''permissions'', ''metadata''}.
      [''name'' \<mapsto> GString ''Al'', ''email'' \<mapsto> GString ''mallory@example.com'',
       ''password'' \<mapsto> GString ''x'', ''role'' \<mapsto> GInt 3] k
      = [''name'' \<mapsto> GString ''Al'', ''role'' \<mapsto> GInt 3] k"
    by simp
  have ign: "UpdateUser (kit ''1h'') 7 ''u1'' [''name'' \<mapsto> GString ''Al'', ''role'' \<mapsto> GInt 3]
      = UpdateUser (kit ''1h'') 7 ''u1'' [''name'' \<mapsto> GString ''Al'']"
    using h by (simp add: UpdateUser_def apply_updates_def)
  from UpdateUser_frame [OF h, of 7
      "[''name'' \<mapsto> GString ''Al'', ''email'' \<mapsto> GString ''mallory@example.com'',
        ''password'' \<mapsto> GString ''x'', ''role'' \<mapsto> GInt 3]"]
  have ex: "\<exists>u'. map_of (users (snd (UpdateUser (kit ''1h'') 7 ''u1''
               [''name'' \<mapsto> GString ''Al'', ''email'' \<mapsto> GString ''mallory@example.com'',
                ''password'' \<mapsto> GString ''x'', ''role'' \<mapsto> GInt 3]))) ''u1'' = Some u'
          \<and> ID u' = ID alice \<and> Email u' = Email alice
          \<and> Password u' = Password alice \<and> CreatedAt u' = CreatedAt alice \<and> UpdatedAt u' = 7"
    and eq: "\<forall>updates'. (\<forall>k \<in> {''name'', ''role'', ''permissions'', ''metadata''}.
        [''name'' \<mapsto> GString ''Al'', ''email'' \<mapsto> GString ''mallory@example.com'',
         ''password'' \<mapsto> GString ''x'', ''role'' \<mapsto> GInt 3] k = updates' k)
      \<longrightarrow> UpdateUser (kit ''1h'') 7 ''u1''
            [''name'' \<mapsto> GString ''Al'', ''email'' \<mapsto> GString ''mallory@example.com'',
             ''password'' \<mapsto> GString ''x'', ''role'' \<mapsto> GInt 3]
          = UpdateUser (kit ''1h'') 7 ''u1'' updates'"
    by blast+
  from eq same have "UpdateUser (kit ''1h'') 7 ''u1''
        [''name'' \<mapsto> GString ''Al'', ''email'' \<mapsto> GString ''mallory@example.com'',
         ''password'' \<mapsto> GString ''x'', ''role'' \<mapsto> GInt 3]
      = UpdateUser (kit ''1h'') 7 ''u1'' [''name'' \<mapsto> GString ''Al'', ''role'' \<mapsto> GInt 3]"
    by blast
  with ign ex h show ?thesis
    by (simp add: alice_def)
qed

text \<open>
  C10. For a stored user, the permissions after \<open>UpdateUser\<close> are the value under the
  key permissions when that value is a \<open>[]string\<close>, and the stored permissions in every
  other case, a \<open>[]interface{}\<close> of strings included.
\<close>

theorem UpdateUser_permissions_type:
  assumes "map_of (users a) userID = Some u"
  shows "\<exists>u'. map_of (users (snd (UpdateUser a now userID updates))) userID = Some u'
            \<and> Permissions u' =
                (case updates ''permissions'' of
                   Some (GStrings ps) \<Rightarrow> ps
                 | _ \<Rightarrow> Permissions u)"
proof -
  have "Permissions (apply_updates now updates u) =
          (case updates ''permissions'' of Some (GStrings ps) \<Rightarrow> ps | _ \<Rightarrow> Permissions u)"
    by (cases "updates ''permissions''"; cases "the (updates ''permissions'')")
       (simp_all add: apply_updates_def Let_def split: option.splits)
  then show ?thesis
    using assms by (simp add: UpdateUser_def Let_def update_conv')
qed

theorem UpdateUser_permissions_type_witness:
  "map_of (users (kit ''1h'')) ''u1'' = Some alice
   \<and> (\<exists>u'. map_of (users (snd (UpdateUser (kit ''1h'') 7 ''u1''
               [''permissions'' \<mapsto> GSlice [GString ''read'', GString ''write'']]))) ''u1'' = Some u'
          \<and> Permissions u' = [])
   \<and> (\<exists>u'. map_of (users (snd (UpdateUser (kit ''1h'') 7 ''u1''
               [''permissions'' \<mapsto> GStrings [''read'', ''write'']]))) ''u1'' = Some u'
          \<and> Permissions u' = [''read'', ''write''])"
proof -
  have h: "map_of (users (kit ''1h'')) ''u1'' = Some alice"
    by (simp add: kit_def)
  show ?thesis
    using h
      UpdateUser_permissions_type [OF h, of 7
        "[''permissions'' \<mapsto> GSlice [GString ''read'', GString ''write'']]"]
      UpdateUser_permissions_type [OF h, of 7
        "[''permissions'' \<mapsto> GStrings [''read'', ''write'']]"]
    by (simp add: alice_def)
qed

section \<open>Password hashing\<close>

lemma HashPasswordStatic_passes_cost:
  "HashPasswordStatic L p c = GenerateFromPassword L p (if c = 0 then 12 else c)"
  by (simp add: HashPasswordStatic_def Let_def split: sum.splits)

lemma HashPassword_passes_cost:
  "HashPassword L a p = GenerateFromPassword L p (BCryptCost (config a))"
  by (simp add: HashPassword_def split: sum.splits)

lemma New_BCryptCost:
  "BCryptCost (config (New cfg)) = (if BCryptCost cfg = 0 then 12 else BCryptCost cfg)"
  by (simp add: New_def Let_def)

lemma stub_cost_handling: "bcrypt_cost_handling stub_library"
  by (simp add: bcrypt_cost_handling_def stub_library_def MinCost_def MaxCost_def DefaultCost_def)

text \<open>
  C4, counterexample. The cost 3 lies outside the supported range and is not 0, and
  \<open>HashPasswordStatic\<close> returns a hash for it; so does \<open>HashPassword\<close> under a
  configured cost of 3. And for a password of 73 bytes the unsupported cost 40 fails
  with \<open>ErrPasswordTooLong\<close>, not with \<open>WeakParameterError\<close>.
\<close>

theorem unsupported_cost_counterexample:
  "\<not> cost_supported 3
   \<and> HashPasswordStatic stub_library ''pw12345678'' 3 = Inr ''hash:pw12345678''
   \<and> HashPassword stub_library
        (New \<lparr>JWTSecret = ''secret'', TokenExpiry = ''1h'', RefreshExpiry = ''7d'',
              BCryptCost = 3, RateLimitRPM = 0, EmailRequired = False\<rparr>) ''pw12345678''
      = Inr ''hash:pw12345678''
   \<and> \<not> cost_supported 40
   \<and> HashPasswordStatic stub_library (replicate 73 CHR ''a'') 40 = Inl ErrPasswordTooLong"
  by (simp add: cost_supported_def HashPasswordStatic_passes_cost HashPassword_passes_cost
      New_BCryptCost stub_library_def MinCost_def MaxCost_def DefaultCost_def
      MaxPasswordLength_def)

text \<open>
  C4, as amended. \<open>HashPasswordStatic\<close> and \<open>HashPassword\<close> hand the cost to the
  library as they got it and return the library's answer as it is; only the cost 0 is
  replaced, by 12, in \<open>HashPasswordStatic\<close> and, for \<open>HashPassword\<close>, in \<open>New\<close>. Over
  a library that behaves as documented, a password of at most 72 bytes with a cost above
  the maximum fails with \<open>WeakParameterError\<close>, a cost below the minimum other than 0
  is hashed at the library's default cost, and a password of more than 72 bytes fails
  with \<open>ErrPasswordTooLong\<close> whatever the cost.
\<close>

theorem hashing_cost_policy:
  assumes "bcrypt_cost_handling L"
  shows "(length p \<le> MaxPasswordLength \<and> MaxCost < c \<longrightarrow>
            HashPasswordStatic L p c = Inl (WeakParameterError c))
       \<and> (c \<noteq> 0 \<longrightarrow> HashPasswordStatic L p c = GenerateFromPassword L p c)
       \<and> HashPasswordStatic L p 0 = GenerateFromPassword L p 12
       \<and> (c < MinCost \<and> c \<noteq> 0 \<longrightarrow>
            HashPasswordStatic L p c = GenerateFromPassword L p DefaultCost)
       \<and> HashPassword L a p = GenerateFromPassword L p (BCryptCost (config a))
       \<and> (length p \<le> MaxPasswordLength \<and> MaxCost < BCryptCost cfg \<longrightarrow>
            HashPassword L (New cfg) p = Inl (WeakParameterError (BCryptCost cfg)))
       \<and> (BCryptCost cfg = 0 \<longrightarrow> HashPassword L (New cfg) p = GenerateFromPassword L p 12)
       \<and> (BCryptCost cfg < MinCost \<and> BCryptCost cfg \<noteq> 0 \<longrightarrow>
            HashPassword L (New cfg) p = GenerateFromPassword L p DefaultCost)
       \<and> (MaxPasswordLength < length p \<longrightarrow>
            HashPasswordStatic L p c = Inl ErrPasswordTooLong
            \<and> HashPassword L a p = Inl ErrPasswordTooLong)"
proof -
  have long: "\<And>p c. MaxPasswordLength < length p \<Longrightarrow>
      GenerateFromPassword L p c = Inl ErrPasswordTooLong"
    and lo: "\<And>p c. c < MinCost \<Longrightarrow>
      GenerateFromPassword L p c = GenerateFromPassword L p DefaultCost"
    and hi: "\<And>p c. length p \<le> MaxPasswordLength \<Longrightarrow> MaxCost < c \<Longrightarrow>
      GenerateFromPassword L p c = Inl (WeakParameterError c)"
    using assms by (simp_all add: bcrypt_cost_handling_def)
  have "MaxCost < c \<Longrightarrow> c \<noteq> 0"
    by (simp add: MaxCost_def)
  moreover have "MaxCost < BCryptCost cfg \<Longrightarrow> BCryptCost cfg \<noteq> 0"
    by (simp add: MaxCost_def)
  ultimately show ?thesis
    using lo hi long
    by (auto simp: HashPasswordStatic_passes_cost HashPassword_passes_cost New_BCryptCost)
qed

theorem hashing_cost_policy_witness:
  "bcrypt_cost_handling stub_library
   \<and> length ''pw12345678'' \<le> MaxPasswordLength
   \<and> MaxCost < 40 \<and> (3::int) < MinCost
   \<and> MaxPasswordLength < length (replicate 73 CHR ''a'')
   \<and> HashPasswordStatic stub_library ''pw12345678'' 40 = Inl (WeakParameterError 40)
   \<and> HashPasswordStatic stub_library ''pw12345678'' 3
      = GenerateFromPassword stub_library ''pw12345678'' DefaultCost
   \<and> HashPasswordStatic stub_library ''pw12345678'' 0
      = GenerateFromPassword stub_library ''pw12345678'' 12
   \<and> HashPassword stub_library
        (New \<lparr>JWTSecret = ''secret'', TokenExpiry = ''1h'', RefreshExpiry = ''7d'',
              BCryptCost = 40, RateLimitRPM = 0, EmailRequired = False\<rparr>) ''pw12345678''
      = Inl (WeakParameterError 40)
   \<and> HashPassword stub_library
        (New \<lparr>JWTSecret = ''secret'', TokenExpiry = ''1h'', RefreshExpiry = ''7d'',
              BCryptCost = 0, RateLimitRPM = 0, EmailRequired = False\<rparr>) ''pw12345678''
      = GenerateFromPassword stub_library ''pw12345678'' 12
   \<and> HashPasswordStatic stub_library (replicate 73 CHR ''a'') 12 = Inl ErrPasswordTooLong"
proof -
  let ?hi = "\<lparr>JWTSecret = ''secret'', TokenExpiry = ''1h'', RefreshExpiry = ''7d'',
              BCryptCost = 40, RateLimitRPM = 0, EmailRequired = False\<rparr>"
  let ?zero = "\<lparr>JWTSecret = ''secret'', TokenExpiry = ''1h'', RefreshExpiry = ''7d'',
              BCryptCost = 0, RateLimitRPM = 0, EmailRequired = False\<rparr>"
  have c: "MaxCost < 40" "(3::int) < MinCost" "(3::int) \<noteq> 0"
    by (simp_all add: MinCost_def MaxCost_def)
  have l: "length ''pw12345678'' \<le> MaxPasswordLength"
    "MaxPasswordLength < length (replicate 73 CHR ''a'')"
    by (simp_all add: MaxPasswordLength_def)
  have b: "MaxCost < BCryptCost ?hi" "BCryptCost ?zero = 0"
    by (simp_all add: MaxCost_def)
  note H = hashing_cost_policy [OF stub_cost_handling]
  have "HashPasswordStatic stub_library ''pw12345678'' 40 = Inl (WeakParameterError 40)"
    using H [of "''pw12345678''" 40] c l by blast
  moreover have "HashPasswordStatic stub_library ''pw12345678'' 3
      = GenerateFromPassword stub_library ''pw12345678'' DefaultCost"
    using H [of "''pw12345678''" 3] c by blast
  moreover have "HashPasswordStatic stub_library ''pw12345678'' 0
      = GenerateFromPassword stub_library ''pw12345678'' 12"
    using H [of "''pw12345678''" 3] by blast
  moreover have "HashPassword stub_library (New ?hi) ''pw12345678''
      = Inl (WeakParameterError (BCryptCost ?hi))"
    using H [of "''pw12345678''" 3 "New ?hi" ?hi] b(1) l(1) by blast
  then have "HashPassword stub_library (New ?hi) ''pw12345678'' = Inl (WeakParameterError 40)"
    by simp
  moreover have "HashPassword stub_library (New ?zero) ''pw12345678''
      = GenerateFromPassword stub_library ''pw12345678'' 12"
    using H [of "''pw12345678''" 3 "New ?zero" ?zero] b(2) by blast
  moreover have "HashPasswordStatic stub_library (replicate 73 CHR ''a'') 12 = Inl ErrPasswordTooLong"
    using H [of "replicate 73 CHR ''a''" 12] l(2) by blast
  ultimately show ?thesis
    using c l stub_cost_handling by blast
qed

section \<open>Strings of valid UTF-8\<close>

lemma valid_bytes_ascii: "list_all (\<lambda>b. b < 0x80) bs \<Longrightarrow> valid_bytes bs"
proof (induction bs)
  case Nil
  show ?case by (subst valid_bytes.simps) simp
next
  case (Cons b bs)
  then show ?case by (subst valid_bytes.simps) simp
qed

lemma valid_utf8_ascii: "list_all (\<lambda>c. of_char c < (0x80 :: nat)) s \<Longrightarrow> valid_utf8 s"
  by (simp add: valid_utf8_def valid_bytes_ascii list_all_iff)

lemma invalid_utf8_byte: "\<not> valid_utf8 [CHR 0xFF]"
  unfolding valid_utf8_def by (subst valid_bytes.simps) simp

section \<open>Encoding and decoding claims\<close>

lemma those_strict_string [simp]: "those (map (strict_string \<circ> JStr) xs) = Some xs"
  by (induction xs) simp_all

lemma those_elem_string [simp]: "those (map (elem_string \<circ> JStr) xs) = Some xs"
  by (induction xs) simp_all

lemma encode_registered_lookup:
  "encode_registered rc ''iss'' = (if Issuer rc = [] then None else Some (JStr (Issuer rc)))"
  "encode_registered rc ''sub'' = (if Subject rc = [] then None else Some (JStr (Subject rc)))"
  "encode_registered rc ''aud'' = (if Audience rc = [] then None else Some (JArr (map JStr (Audience rc))))"
  "encode_registered rc ''exp'' = map_option JNum (ExpiresAt rc)"
  "encode_registered rc ''nbf'' = map_option JNum (NotBefore rc)"
  "encode_registered rc ''iat'' = map_option JNum (IssuedAt rc)"
  "encode_registered rc ''jti'' = (if JwtID rc = [] then None else Some (JStr (JwtID rc)))"
  "encode_registered rc ''user_id'' = None"
  "encode_registered rc ''email'' = None"
  "encode_registered rc ''role'' = None"
  "encode_registered rc ''permissions'' = None"
  "encode_registered rc ''metadata'' = None"
  by (simp_all add: encode_registered_def obj_member_def date_member_def map_add_def
      split: option.splits)

lemma decode_encode_registered: "decode_registered (encode_registered rc) = Some rc"
proof (cases rc)
  case (fields iss sub aud expires nbf iat jti)
  then show ?thesis
    by (cases expires; cases nbf; cases iat)
       (simp_all add: decode_registered_def encode_registered_lookup)
qed

lemma decode_claims_encode_registered:
  "decode_claims (encode_registered rc) =
     Some \<lparr>UserID = [], ClaimEmail = [], ClaimRole = [], ClaimPermissions = [],
           ClaimMetadata = [], Registered = rc\<rparr>"
  by (simp add: decode_claims_def encode_registered_lookup decode_encode_registered)

lemma encode_claims_lookup:
  "encode_claims c ''iss'' = encode_registered (Registered c) ''iss''"
  "encode_claims c ''sub'' = encode_registered (Registered c) ''sub''"
  "encode_claims c ''aud'' = encode_registered (Registered c) ''aud''"
  "encode_claims c ''exp'' = encode_registered (Registered c) ''exp''"
  "encode_claims c ''nbf'' = encode_registered (Registered c) ''nbf''"
  "encode_claims c ''iat'' = encode_registered (Registered c) ''iat''"
  "encode_claims c ''jti'' = encode_registered (Registered c) ''jti''"
  "encode_claims c ''user_id'' = Some (JStr (UserID c))"
  "encode_claims c ''email'' = Some (JStr (ClaimEmail c))"
  "encode_claims c ''role'' = Some (JStr (ClaimRole c))"
  "encode_claims c ''permissions'' = Some (JArr (map JStr (ClaimPermissions c)))"
  "encode_claims c ''metadata'' =
     (if ClaimMetadata c = [] then None
      else Some (JObj (map (map_prod id to_json) (ClaimMetadata c))))"
  by (simp_all add: encode_claims_def obj_member_def map_add_def encode_registered_lookup
      split: option.splits)

lemma decode_registered_cong:
  "p ''iss'' = q ''iss'' \<Longrightarrow> p ''sub'' = q ''sub'' \<Longrightarrow> p ''aud'' = q ''aud''
   \<Longrightarrow> p ''exp'' = q ''exp'' \<Longrightarrow> p ''nbf'' = q ''nbf'' \<Longrightarrow> p ''iat'' = q ''iat''
   \<Longrightarrow> p ''jti'' = q ''jti'' \<Longrightarrow> decode_registered p = decode_registered q"
  by (simp add: decode_registered_def)

lemma decode_registered_encode_claims:
  "decode_registered (encode_claims c) = Some (Registered c)"
proof -
  have "decode_registered (encode_claims c) = decode_registered (encode_registered (Registered c))"
    by (rule decode_registered_cong) (simp_all only: encode_claims_lookup)
  then show ?thesis by (simp add: decode_encode_registered)
qed

lemma decode_encode_claims:
  "decode_claims (encode_claims c) =
     Some (c\<lparr>ClaimMetadata := map (map_prod id (from_json \<circ> to_json)) (ClaimMetadata c)\<rparr>)"
  by (cases c)
     (simp add: decode_claims_def encode_claims_lookup decode_registered_encode_claims
        map_prod.comp)

section \<open>Generated tokens and how they parse\<close>

lemma GenerateAccessToken_signed:
  "GenerateAccessToken L a now jti user = Inr (signed L a (encode_claims (access_claims L a now jti user)))"
  by (simp add: GenerateAccessToken_def SignedString_def signed_def access_claims_def
      access_duration_def NewNumericDate_def Let_def)

lemma GenerateRefreshToken_signed:
  "GenerateRefreshToken L a now jti user = Inr (signed L a (encode_registered (refresh_claims L a now jti user)))"
  by (simp add: GenerateRefreshToken_def SignedString_def signed_def refresh_claims_def
      refresh_duration_def NewNumericDate_def Let_def)

lemma ParseWithClaims_signed:
  assumes "decode p = Some c"
  shows "ParseWithClaims L now (signed L a p) decode reg (keyFunc a) =
           (case validate_registered now (reg c) of
              [] \<Rightarrow> Inr c
            | fs \<Rightarrow> Inl (ErrTokenInvalidClaims fs))"
  using assms
  by (simp add: ParseWithClaims_def signed_def GetSigningMethod_def keyFunc_def)

lemma parse_claims_as_claims:
  "ParseWithClaims L now (signed L a (encode_claims c)) decode_claims Registered (keyFunc a) =
     (case validate_registered now (Registered c) of
        [] \<Rightarrow> Inr (c\<lparr>ClaimMetadata := map (map_prod id (from_json \<circ> to_json)) (ClaimMetadata c)\<rparr>)
      | fs \<Rightarrow> Inl (ErrTokenInvalidClaims fs))"
  using ParseWithClaims_signed [where decode = decode_claims and p = "encode_claims c"
      and reg = Registered and L = L and a = a and now = now, OF decode_encode_claims]
  by simp

lemma parse_claims_as_registered:
  "ParseWithClaims L now (signed L a (encode_claims c)) decode_registered id (keyFunc a) =
     (case validate_registered now (Registered c) of
        [] \<Rightarrow> Inr (Registered c)
      | fs \<Rightarrow> Inl (ErrTokenInvalidClaims fs))"
  using ParseWithClaims_signed [where decode = decode_registered and p = "encode_claims c"
      and reg = id and L = L and a = a and now = now, OF decode_registered_encode_claims]
  by simp

lemma parse_registered_as_registered:
  "ParseWithClaims L now (signed L a (encode_registered rc)) decode_registered id (keyFunc a) =
     (case validate_registered now rc of
        [] \<Rightarrow> Inr rc
      | fs \<Rightarrow> Inl (ErrTokenInvalidClaims fs))"
  using ParseWithClaims_signed [where decode = decode_registered and p = "encode_registered rc"
      and reg = id and L = L and a = a and now = now, OF decode_encode_registered]
  by simp

lemma parse_registered_as_claims:
  "ParseWithClaims L now (signed L a (encode_registered rc)) decode_claims Registered (keyFunc a) =
     (case validate_registered now rc of
        [] \<Rightarrow> Inr \<lparr>UserID = [], ClaimEmail = [], ClaimRole = [], ClaimPermissions = [],
                     ClaimMetadata = [], Registered = rc\<rparr>
      | fs \<Rightarrow> Inl (ErrTokenInvalidClaims fs))"
  using ParseWithClaims_signed [where decode = decode_claims and p = "encode_registered rc"
      and reg = Registered and L = L and a = a and now = now, OF decode_claims_encode_registered]
  by simp

lemma Unix_floor: "Unix t * second \<le> t"
  by (simp add: Unix_def second_def)

lemma validate_registered_issued:
  assumes "ExpiresAt rc = Some e" and "NotBefore rc = Some (Unix now0)" and "now0 \<le> now"
  shows "validate_registered now rc = (if now < e * second then [] else [TokenExpired])"
proof -
  have "Unix now0 * second \<le> now"
    using Unix_floor [of now0] assms(3) by linarith
  then show ?thesis using assms by (simp add: validate_registered_def)
qed

lemma validate_access_claims:
  "now0 \<le> now \<Longrightarrow>
   validate_registered now (Registered (access_claims L a now0 jti u)) =
     (if now < Unix (now0 + access_duration L a) * second then [] else [TokenExpired])"
  by (rule validate_registered_issued) (simp_all add: access_claims_def)

lemma validate_refresh_claims:
  "now0 \<le> now \<Longrightarrow>
   validate_registered now (refresh_claims L a now0 jti u) =
     (if now < Unix (now0 + refresh_duration L a) * second then [] else [TokenExpired])"
  by (rule validate_registered_issued) (simp_all add: refresh_claims_def)

lemma ValidateToken_never_ErrTokenExpired:
  "ValidateToken L a now t \<noteq> Inl ErrTokenExpired"
  by (simp add: ValidateToken_def split: sum.splits)

lemma ValidateToken_expired_access_token:
  assumes "GenerateAccessToken L a now0 jti u = Inr t" and "now0 \<le> now"
    and "Unix (now0 + access_duration L a) * second \<le> now"
  shows "ParseWithClaims L now t decode_claims Registered (keyFunc a)
           = Inl (ErrTokenInvalidClaims [TokenExpired])
         \<and> ValidateToken L a now t = Inl ErrInvalidToken"
proof -
  have t: "t = signed L a (encode_claims (access_claims L a now0 jti u))"
    using assms(1) by (simp add: GenerateAccessToken_signed)
  have "ParseWithClaims L now t decode_claims Registered (keyFunc a)
           = Inl (ErrTokenInvalidClaims [TokenExpired])"
    unfolding t
    using assms(2,3)
    by (simp add: parse_claims_as_claims validate_access_claims)
  then show ?thesis by (simp add: ValidateToken_def)
qed

text \<open>
  C1, at the failing input. An access token issued at instant 0 with a lifetime of one
  hour, presented two hours later: the library's parser accepts structure and signature
  and reports the expiry alone, and \<open>ValidateToken\<close> answers \<open>ErrInvalidToken\<close>, not
  \<open>ErrTokenExpired\<close>.
\<close>

theorem ValidateToken_expired_is_invalid:
  "\<exists>t. GenerateAccessToken stub_library (kit ''1h'') 0 ''jti-1'' alice = Inr t
      \<and> ParseWithClaims stub_library (2 * hour) t decode_claims Registered (keyFunc (kit ''1h''))
          = Inl (ErrTokenInvalidClaims [TokenExpired])
      \<and> ValidateToken stub_library (kit ''1h'') (2 * hour) t = Inl ErrInvalidToken
      \<and> ValidateToken stub_library (kit ''1h'') (2 * hour) t \<noteq> Inl ErrTokenExpired"
proof -
  have d: "access_duration stub_library (kit ''1h'') = hour"
    by (simp add: access_duration_def stub_library_def kit_def New_def)
  have e: "Unix (0 + access_duration stub_library (kit ''1h'')) * second \<le> 2 * hour"
    by (simp add: d Unix_def hour_def second_def)
  have z: "(0::int) \<le> 2 * hour"
    by (simp add: hour_def second_def)
  show ?thesis
    using ValidateToken_expired_access_token [OF GenerateAccessToken_signed z e]
    by (simp add: GenerateAccessToken_signed)
qed

section \<open>Access tokens and refresh tokens\<close>

lemma ValidateToken_refresh_token:
  assumes "now0 \<le> now" and "now < Unix (now0 + refresh_duration L a) * second"
  shows "ValidateToken L a now (signed L a (encode_registered (refresh_claims L a now0 jti u)))
           = Inr \<lparr>UserID = [], ClaimEmail = [], ClaimRole = [], ClaimPermissions = [],
                  ClaimMetadata = [], Registered = refresh_claims L a now0 jti u\<rparr>"
  using assms
  by (simp add: ValidateToken_def parse_registered_as_claims validate_refresh_claims)

lemma RefreshToken_parsed:
  assumes "ParseWithClaims L now t decode_registered id (keyFunc a) = Inr claims"
  shows "RefreshToken L a now jti1 jti2 t =
           (case map_of (users a) (Subject claims) of
              None \<Rightarrow> Inl ErrUserNotFound
            | Some user \<Rightarrow>
                Inr \<lparr>AccessToken = signed L a (encode_claims (access_claims L a now jti1 user)),
                     NewRefreshToken = signed L a (encode_registered (refresh_claims L a now jti2 user)),
                     TokenType = ''Bearer'', ExpiresIn = reported_expiry L a,
                     RespUser = userToUserInfo user\<rparr>)"
  using assms
  by (simp add: RefreshToken_def GetUserByID_def GenerateAccessToken_signed
      GenerateRefreshToken_signed split: option.splits)

lemma RefreshToken_access_token:
  assumes "now0 \<le> now" and "now < Unix (now0 + access_duration L a) * second"
    and "map_of (users a) (ID u) = Some u'"
  shows "RefreshToken L a now jti1 jti2 (signed L a (encode_claims (access_claims L a now0 jti u)))
           = Inr \<lparr>AccessToken = signed L a (encode_claims (access_claims L a now jti1 u')),
                  NewRefreshToken = signed L a (encode_registered (refresh_claims L a now jti2 u')),
                  TokenType = ''Bearer'', ExpiresIn = reported_expiry L a,
                  RespUser = userToUserInfo u'\<rparr>"
proof -
  have "ParseWithClaims L now (signed L a (encode_claims (access_claims L a now0 jti u)))
          decode_registered id (keyFunc a) = Inr (Registered (access_claims L a now0 jti u))"
    using assms(1,2) by (simp add: parse_claims_as_registered validate_access_claims)
  from RefreshToken_parsed [OF this] assms(3) show ?thesis
    by (simp add: access_claims_def)
qed

lemma stub_durations:
  "access_duration stub_library (kit ''1h'') = hour"
  "refresh_duration stub_library (kit ''1h'') = 7 * 24 * hour"
  "access_duration stub_library (kit ''7d'') = 24 * hour"
  by (simp_all add: access_duration_def refresh_duration_def stub_library_def kit_def New_def)

lemma kit_users: "users (kit e) = [(''u1'', alice)]"
  by (simp add: kit_def)

text \<open>
  C2, counterexample. A refresh token issued for a user at instant 0 is accepted by
  \<open>ValidateToken\<close> one hour later, and an access token issued at instant 0 is accepted
  by \<open>RefreshToken\<close> half an hour later.
\<close>

theorem token_classes_counterexample:
  "\<exists>rt tok. GenerateRefreshToken stub_library (kit ''1h'') 0 ''jti-r'' alice = Inr rt
      \<and> ValidateToken stub_library (kit ''1h'') hour rt \<noteq> Inl ErrInvalidToken
      \<and> GenerateAccessToken stub_library (kit ''1h'') 0 ''jti-a'' alice = Inr tok
      \<and> RefreshToken stub_library (kit ''1h'') (1800 * second) ''jti-1'' ''jti-2'' tok
          \<noteq> Inl ErrInvalidToken"
proof -
  have r: "(0::int) \<le> hour \<and> hour < Unix (0 + refresh_duration stub_library (kit ''1h'')) * second"
    by (simp add: stub_durations Unix_def hour_def second_def)
  have a: "(0::int) \<le> 1800 * second
      \<and> 1800 * second < Unix (0 + access_duration stub_library (kit ''1h'')) * second"
    by (simp add: stub_durations Unix_def hour_def second_def)
  have u: "map_of (users (kit ''1h'')) (ID alice) = Some alice"
    by (simp add: kit_users alice_def)
  show ?thesis
    using r a
    by (simp add: GenerateRefreshToken_signed GenerateAccessToken_signed
        ValidateToken_refresh_token RefreshToken_access_token [OF _ _ u])
qed

text \<open>
  C2, as amended. The two classes carry distinct issuer and audience tags, which neither
  operation checks: for a user \<open>u\<close> whose id is valid UTF-8, from its issuance until its
  expiry a refresh token for \<open>u\<close> is accepted by \<open>ValidateToken\<close>, which returns claims
  with empty user id, email and role, the id of \<open>u\<close> as subject and the refresh tags,
  and an access token for \<open>u\<close> is accepted by \<open>RefreshToken\<close> whenever the directory
  holds a record under the id of \<open>u\<close>.
\<close>

theorem token_classes_not_separated:
  assumes "GenerateRefreshToken L a now0 jti u = Inr rt"
    and "GenerateAccessToken L a now0 jti' u = Inr tok"
    and "now0 \<le> now"
    and "valid_utf8 (ID u)"
  shows "(now < Unix (now0 + refresh_duration L a) * second \<longrightarrow>
            (\<exists>c. ValidateToken L a now rt = Inr c
               \<and> UserID c = [] \<and> ClaimEmail c = [] \<and> ClaimRole c = []
               \<and> Subject (Registered c) = ID u
               \<and> Issuer (Registered c) = ''authkit-refresh''
               \<and> Audience (Registered c) = [''authkit-refresh'']))
       \<and> (now < Unix (now0 + access_duration L a) * second
            \<and> map_of (users a) (ID u) = Some u' \<longrightarrow>
            (\<exists>resp. RefreshToken L a now jti1 jti2 tok = Inr resp
               \<and> RespUser resp = userToUserInfo u'))
       \<and> (\<exists>p s. tok = Compact ''HS256'' p s \<and> p ''iss'' = Some (JStr ''authkit'')
               \<and> p ''aud'' = Some (JArr [JStr ''authkit-users'']))
       \<and> (\<exists>p s. rt = Compact ''HS256'' p s \<and> p ''iss'' = Some (JStr ''authkit-refresh'')
               \<and> p ''aud'' = Some (JArr [JStr ''authkit-refresh'']))"
proof -
  have rt: "rt = signed L a (encode_registered (refresh_claims L a now0 jti u))"
    using assms(1) by (simp add: GenerateRefreshToken_signed)
  have tok: "tok = signed L a (encode_claims (access_claims L a now0 jti' u))"
    using assms(2) by (simp add: GenerateAccessToken_signed)
  show ?thesis
  proof (intro conjI impI)
    assume "now < Unix (now0 + refresh_duration L a) * second"
    from ValidateToken_refresh_token [OF assms(3) this, of jti u]
    show "\<exists>c. ValidateToken L a now rt = Inr c
               \<and> UserID c = [] \<and> ClaimEmail c = [] \<and> ClaimRole c = []
               \<and> Subject (Registered c) = ID u
               \<and> Issuer (Registered c) = ''authkit-refresh''
               \<and> Audience (Registered c) = [''authkit-refresh'']"
      by (simp add: rt refresh_claims_def)
  next
    assume h: "now < Unix (now0 + access_duration L a) * second
            \<and> map_of (users a) (ID u) = Some u'"
    from RefreshToken_access_token [OF assms(3), of L a u u' jti1 jti2 jti'] h
    show "\<exists>resp. RefreshToken L a now jti1 jti2 tok = Inr resp
               \<and> RespUser resp = userToUserInfo u'"
      by (simp add: tok)
  next
    show "\<exists>p s. tok = Compact ''HS256'' p s \<and> p ''iss'' = Some (JStr ''authkit'')
               \<and> p ''aud'' = Some (JArr [JStr ''authkit-users''])"
      by (simp add: tok signed_def encode_claims_lookup encode_registered_lookup access_claims_def)
  next
    show "\<exists>p s. rt = Compact ''HS256'' p s \<and> p ''iss'' = Some (JStr ''authkit-refresh'')
               \<and> p ''aud'' = Some (JArr [JStr ''authkit-refresh''])"
      by (simp add: rt signed_def encode_registered_lookup refresh_claims_def)
  qed
qed

theorem token_classes_not_separated_witness:
  "GenerateRefreshToken stub_library (kit ''1h'') 0 ''jti-r'' alice
     = Inr (signed stub_library (kit ''1h'')
             (encode_registered (refresh_claims stub_library (kit ''1h'') 0 ''jti-r'' alice)))
   \<and> GenerateAccessToken stub_library (kit ''1h'') 0 ''jti-a'' alice
     = Inr (signed stub_library (kit ''1h'')
             (encode_claims (access_claims stub_library (kit ''1h'') 0 ''jti-a'' alice)))
   \<and> (0::int) \<le> 1800 * second
   \<and> valid_utf8 (ID alice)
   \<and> 1800 * second < Unix (0 + refresh_duration stub_library (kit ''1h'')) * second
   \<and> 1800 * second < Unix (0 + access_duration stub_library (kit ''1h'')) * second
   \<and> map_of (users (kit ''1h'')) (ID alice) = Some alice
   \<and> (\<exists>c. ValidateToken stub_library (kit ''1h'') (1800 * second)
              (signed stub_library (kit ''1h'')
                (encode_registered (refresh_claims stub_library (kit ''1h'') 0 ''jti-r'' alice)))
            = Inr c
          \<and> UserID c = [] \<and> Subject (Registered c) = ''u1''
          \<and> Issuer (Registered c) = ''authkit-refresh'')
   \<and> (\<exists>resp. RefreshToken stub_library (kit ''1h'') (1800 * second) ''jti-1'' ''jti-2''
              (signed stub_library (kit ''1h'')
                (encode_claims (access_claims stub_library (kit ''1h'') 0 ''jti-a'' alice)))
            = Inr resp
          \<and> RespUser resp = userToUserInfo alice)"
proof -
  have g1: "GenerateRefreshToken stub_library (kit ''1h'') 0 ''jti-r'' alice
     = Inr (signed stub_library (kit ''1h'')
             (encode_registered (refresh_claims stub_library (kit ''1h'') 0 ''jti-r'' alice)))"
    by (rule GenerateRefreshToken_signed)
  have g2: "GenerateAccessToken stub_library (kit ''1h'') 0 ''jti-a'' alice
     = Inr (signed stub_library (kit ''1h'')
             (encode_claims (access_claims stub_library (kit ''1h'') 0 ''jti-a'' alice)))"
    by (rule GenerateAccessToken_signed)
  have t: "(0::int) \<le> 1800 * second"
    by (simp add: second_def)
  have r: "1800 * second < Unix (0 + refresh_duration stub_library (kit ''1h'')) * second"
    by (simp add: stub_durations Unix_def hour_def second_def)
  have a: "1800 * second < Unix (0 + access_duration stub_library (kit ''1h'')) * second"
    by (simp add: stub_durations Unix_def hour_def second_def)
  have u: "map_of (users (kit ''1h'')) (ID alice) = Some alice"
    by (simp add: kit_users alice_def)
  have i: "ID alice = ''u1''"
    by (simp add: alice_def)
  have v: "valid_utf8 (ID alice)"
    by (simp add: i valid_utf8_ascii)
  from token_classes_not_separated [OF g1 g2 t v, of alice "''jti-1''" "''jti-2''"] r a u i
  have "(\<exists>c. ValidateToken stub_library (kit ''1h'') (1800 * second)
              (signed stub_library (kit ''1h'')
                (encode_registered (refresh_claims stub_library (kit ''1h'') 0 ''jti-r'' alice)))
            = Inr c
          \<and> UserID c = [] \<and> Subject (Registered c) = ''u1''
          \<and> Issuer (Registered c) = ''authkit-refresh'')
   \<and> (\<exists>resp. RefreshToken stub_library (kit ''1h'') (1800 * second) ''jti-1'' ''jti-2''
              (signed stub_library (kit ''1h'')
                (encode_claims (access_claims stub_library (kit ''1h'') 0 ''jti-a'' alice)))
            = Inr resp
          \<and> RespUser resp = userToUserInfo alice)"
    by auto
  with g1 g2 t v r a u show ?thesis by blast
qed

text \<open>
  C5. Whenever the refresh token parses and verifies and the directory holds no record
  under its subject, \<open>RefreshToken\<close> fails with \<open>ErrUserNotFound\<close> and returns no
  tokens; in particular for a refresh token issued for a user who was then deleted,
  presented between issuance and expiry.
\<close>

theorem RefreshToken_deleted_user:
  "(ParseWithClaims L now t decode_registered id (keyFunc a) = Inr claims
      \<and> map_of (users a) (Subject claims) = None \<longrightarrow>
      RefreshToken L a now jti1 jti2 t = Inl ErrUserNotFound)
   \<and> (GenerateRefreshToken L a0 now0 jti u = Inr rt
      \<and> DeleteUser a0 (ID u) = (None, a1)
      \<and> now0 \<le> now \<and> now < Unix (now0 + refresh_duration L a0) * second \<longrightarrow>
      RefreshToken L a1 now jti1 jti2 rt = Inl ErrUserNotFound)"
proof (intro conjI impI)
  assume "ParseWithClaims L now t decode_registered id (keyFunc a) = Inr claims
      \<and> map_of (users a) (Subject claims) = None"
  then show "RefreshToken L a now jti1 jti2 t = Inl ErrUserNotFound"
    by (simp add: RefreshToken_parsed)
next
  assume h: "GenerateRefreshToken L a0 now0 jti u = Inr rt
      \<and> DeleteUser a0 (ID u) = (None, a1)
      \<and> now0 \<le> now \<and> now < Unix (now0 + refresh_duration L a0) * second"
  then have a1: "a1 = a0\<lparr>users := AList.delete (ID u) (users a0)\<rparr>"
    by (auto simp: DeleteUser_def split: option.splits)
  have same: "signed L a1 = signed L a0" "keyFunc a1 = keyFunc a0"
    "refresh_claims L a1 = refresh_claims L a0"
    by (auto simp: a1 signed_def keyFunc_def refresh_claims_def refresh_duration_def fun_eq_iff
        split: signing_method.splits)
  have rt: "rt = signed L a1 (encode_registered (refresh_claims L a0 now0 jti u))"
    using h by (simp add: GenerateRefreshToken_signed same)
  have "ParseWithClaims L now rt decode_registered id (keyFunc a1)
          = Inr (refresh_claims L a0 now0 jti u)"
    using h unfolding rt
    by (simp add: parse_registered_as_registered validate_refresh_claims)
  moreover have "map_of (users a1) (Subject (refresh_claims L a0 now0 jti u)) = None"
    by (simp add: a1 refresh_claims_def delete_conv')
  ultimately show "RefreshToken L a1 now jti1 jti2 rt = Inl ErrUserNotFound"
    by (simp add: RefreshToken_parsed)
qed

theorem RefreshToken_deleted_user_witness:
  "GenerateRefreshToken stub_library (kit ''1h'') 0 ''jti-r'' alice
     = Inr (signed stub_library (kit ''1h'')
             (encode_registered (refresh_claims stub_library (kit ''1h'') 0 ''jti-r'' alice)))
   \<and> DeleteUser (kit ''1h'') (ID alice) = (None, (kit ''1h'')\<lparr>users := []\<rparr>)
   \<and> (0::int) \<le> hour
   \<and> hour < Unix (0 + refresh_duration stub_library (kit ''1h'')) * second
   \<and> ParseWithClaims stub_library hour
        (signed stub_library (kit ''1h'')
          (encode_registered (refresh_claims stub_library (kit ''1h'') 0 ''jti-r'' alice)))
        decode_registered id (keyFunc ((kit ''1h'')\<lparr>users := []\<rparr>))
      = Inr (refresh_claims stub_library (kit ''1h'') 0 ''jti-r'' alice)
   \<and> map_of (users ((kit ''1h'')\<lparr>users := []\<rparr>))
        (Subject (refresh_claims stub_library (kit ''1h'') 0 ''jti-r'' alice)) = None
   \<and> RefreshToken stub_library ((kit ''1h'')\<lparr>users := []\<rparr>) hour ''jti-1'' ''jti-2''
        (signed stub_library (kit ''1h'')
          (encode_registered (refresh_claims stub_library (kit ''1h'') 0 ''jti-r'' alice)))
      = Inl ErrUserNotFound"
proof -
  have g: "GenerateRefreshToken stub_library (kit ''1h'') 0 ''jti-r'' alice
     = Inr (signed stub_library (kit ''1h'')
             (encode_registered (refresh_claims stub_library (kit ''1h'') 0 ''jti-r'' alice)))"
    by (rule GenerateRefreshToken_signed)
  have d: "DeleteUser (kit ''1h'') (ID alice) = (None, (kit ''1h'')\<lparr>users := []\<rparr>)"
    by (simp add: DeleteUser_def kit_users alice_def)
  have t: "(0::int) \<le> hour" "hour < Unix (0 + refresh_duration stub_library (kit ''1h'')) * second"
    by (simp_all add: stub_durations Unix_def hour_def second_def)
  have k: "keyFunc ((kit ''1h'')\<lparr>users := []\<rparr>) = keyFunc (kit ''1h'')"
    by (auto simp: keyFunc_def fun_eq_iff split: signing_method.splits)
  have p: "ParseWithClaims stub_library hour
        (signed stub_library (kit ''1h'')
          (encode_registered (refresh_claims stub_library (kit ''1h'') 0 ''jti-r'' alice)))
        decode_registered id (keyFunc ((kit ''1h'')\<lparr>users := []\<rparr>))
      = Inr (refresh_claims stub_library (kit ''1h'') 0 ''jti-r'' alice)"
    using t by (simp add: k parse_registered_as_registered validate_refresh_claims)
  have m: "map_of (users ((kit ''1h'')\<lparr>users := []\<rparr>))
        (Subject (refresh_claims stub_library (kit ''1h'') 0 ''jti-r'' alice)) = None"
    by simp
  show ?thesis
    using g d t p m
      RefreshToken_deleted_user [of stub_library hour _ "(kit ''1h'')\<lparr>users := []\<rparr>"
        "refresh_claims stub_library (kit ''1h'') 0 ''jti-r'' alice" "''jti-1''" "''jti-2''"
        "kit ''1h''" 0 "''jti-r''" alice _ "(kit ''1h'')\<lparr>users := []\<rparr>"]
    by simp
qed

section \<open>The reported and the real lifetime\<close>

lemma ValidateToken_access_token:
  assumes "now0 \<le> now"
  shows "ValidateToken L a now (signed L a (encode_claims (access_claims L a now0 jti u))) =
           (if now < Unix (now0 + access_duration L a) * second
            then Inr ((access_claims L a now0 jti u)
                       \<lparr>ClaimMetadata := map (map_prod id (from_json \<circ> to_json)) (Metadata u)\<rparr>)
            else Inl ErrInvalidToken)"
  using assms
  by (simp add: ValidateToken_def parse_claims_as_claims validate_access_claims)
     (simp add: access_claims_def)

lemma LoginUser_found:
  assumes "find (\<lambda>(k, u). Email u = email) (users a) = Some (k, user)"
    and "CompareHashAndPassword L (Password user) password"
  shows "LoginUser L a now jti1 jti2 email password =
           Inr \<lparr>AccessToken = signed L a (encode_claims (access_claims L a now jti1 user)),
                NewRefreshToken = signed L a (encode_registered (refresh_claims L a now jti2 user)),
                TokenType = ''Bearer'', ExpiresIn = reported_expiry L a,
                RespUser = userToUserInfo user\<rparr>"
  using assms
  by (simp add: LoginUser_def ComparePassword_def GenerateAccessToken_signed
      GenerateRefreshToken_signed)

lemma unparsable_expiry:
  assumes "ParseDuration L (TokenExpiry (config a)) = None"
  shows "reported_expiry L a = 0" and "access_duration L a = 24 * hour"
  using assms by (simp_all add: reported_expiry_def access_duration_def Seconds_def)

lemma access_token_exp:
  "encode_claims (access_claims L a now jti u) ''exp''
     = Some (JNum (Unix (now + access_duration L a)))"
  by (simp add: encode_claims_lookup encode_registered_lookup access_claims_def)

text \<open>
  C9. When the configured \<open>TokenExpiry\<close> does not parse, \<open>LoginUser\<close> (for a stored
  user with the right password) and \<open>RefreshToken\<close> (for a token that parses and whose
  subject is stored) succeed and report \<open>ExpiresIn = 0\<close>, while the access token they
  return carries the expiry of 24 hours after the call, in whole seconds, and
  \<open>ValidateToken\<close> accepts it from the call on exactly until that instant.
\<close>

theorem unparsable_expiry_reports_zero:
  assumes "ParseDuration L (TokenExpiry (config a)) = None"
  shows "(find (\<lambda>(k, u). Email u = email) (users a) = Some (k, user)
            \<and> CompareHashAndPassword L (Password user) password \<longrightarrow>
          (\<exists>resp p s. LoginUser L a now jti1 jti2 email password = Inr resp
             \<and> ExpiresIn resp = 0
             \<and> AccessToken resp = Compact ''HS256'' p s
             \<and> p ''exp'' = Some (JNum (Unix (now + 24 * hour)))
             \<and> (\<forall>now'. now \<le> now' \<longrightarrow>
                  (ValidateToken L a now' (AccessToken resp) \<noteq> Inl ErrInvalidToken)
                    = (now' < Unix (now + 24 * hour) * second))))
       \<and> (ParseWithClaims L now t decode_registered id (keyFunc a) = Inr claims
            \<and> map_of (users a) (Subject claims) = Some user' \<longrightarrow>
          (\<exists>resp p s. RefreshToken L a now jti1 jti2 t = Inr resp
             \<and> ExpiresIn resp = 0
             \<and> AccessToken resp = Compact ''HS256'' p s
             \<and> p ''exp'' = Some (JNum (Unix (now + 24 * hour)))
             \<and> (\<forall>now'. now \<le> now' \<longrightarrow>
                  (ValidateToken L a now' (AccessToken resp) \<noteq> Inl ErrInvalidToken)
                    = (now' < Unix (now + 24 * hour) * second))))"
proof -
  note z = unparsable_expiry [OF assms]
  have v: "\<And>u now'. now \<le> now' \<Longrightarrow>
      (ValidateToken L a now' (signed L a (encode_claims (access_claims L a now jti1 u)))
         \<noteq> Inl ErrInvalidToken) = (now' < Unix (now + 24 * hour) * second)"
    by (simp add: ValidateToken_access_token z)
  have e: "\<And>u. encode_claims (access_claims L a now jti1 u) ''exp''
      = Some (JNum (Unix (now + 24 * hour)))"
    by (simp add: access_token_exp z)
  show ?thesis
  proof (intro conjI impI)
    assume "find (\<lambda>(k, u). Email u = email) (users a) = Some (k, user)
            \<and> CompareHashAndPassword L (Password user) password"
    then have "LoginUser L a now jti1 jti2 email password =
           Inr \<lparr>AccessToken = signed L a (encode_claims (access_claims L a now jti1 user)),
                NewRefreshToken = signed L a (encode_registered (refresh_claims L a now jti2 user)),
                TokenType = ''Bearer'', ExpiresIn = reported_expiry L a,
                RespUser = userToUserInfo user\<rparr>"
      by (simp add: LoginUser_found)
    then show "\<exists>resp p s. LoginUser L a now jti1 jti2 email password = Inr resp
             \<and> ExpiresIn resp = 0
             \<and> AccessToken resp = Compact ''HS256'' p s
             \<and> p ''exp'' = Some (JNum (Unix (now + 24 * hour)))
             \<and> (\<forall>now'. now \<le> now' \<longrightarrow>
                  (ValidateToken L a now' (AccessToken resp) \<noteq> Inl ErrInvalidToken)
                    = (now' < Unix (now + 24 * hour) * second))"
      using v [of _ user] e [of user] by (simp add: z signed_def)
  next
    assume h: "ParseWithClaims L now t decode_registered id (keyFunc a) = Inr claims
            \<and> map_of (users a) (Subject claims) = Some user'"
    then have "RefreshToken L a now jti1 jti2 t =
           Inr \<lparr>AccessToken = signed L a (encode_claims (access_claims L a now jti1 user')),
                NewRefreshToken = signed L a (encode_registered (refresh_claims L a now jti2 user')),
                TokenType = ''Bearer'', ExpiresIn = reported_expiry L a,
                RespUser = userToUserInfo user'\<rparr>"
      by (simp add: RefreshToken_parsed)
    then show "\<exists>resp p s. RefreshToken L a now jti1 jti2 t = Inr resp
             \<and> ExpiresIn resp = 0
             \<and> AccessToken resp = Compact ''HS256'' p s
             \<and> p ''exp'' = Some (JNum (Unix (now + 24 * hour)))
             \<and> (\<forall>now'. now \<le> now' \<longrightarrow>
                  (ValidateToken L a now' (AccessToken resp) \<noteq> Inl ErrInvalidToken)
                    = (now' < Unix (now + 24 * hour) * second))"
      using v [of _ user'] e [of user'] by (simp add: z signed_def)
  qed
qed

theorem unparsable_expiry_reports_zero_witness:
  "ParseDuration stub_library (TokenExpiry (config (kit ''7d''))) = None
   \<and> find (\<lambda>(k, u). Email u = ''alice@example.com'') (users (kit ''7d'')) = Some (''u1'', alice)
   \<and> CompareHashAndPassword stub_library (Password alice) ''pw12345678''
   \<and> (\<exists>resp. LoginUser stub_library (kit ''7d'') 0 ''jti-1'' ''jti-2''
                ''alice@example.com'' ''pw12345678'' = Inr resp
          \<and> ExpiresIn resp = 0
          \<and> ValidateToken stub_library (kit ''7d'') (23 * hour) (AccessToken resp)
               \<noteq> Inl ErrInvalidToken
          \<and> ValidateToken stub_library (kit ''7d'') (24 * hour) (AccessToken resp)
               = Inl ErrInvalidToken)
   \<and> ParseWithClaims stub_library hour
        (signed stub_library (kit ''7d'')
          (encode_registered (refresh_claims stub_library (kit ''7d'') 0 ''jti-r'' alice)))
        decode_registered id (keyFunc (kit ''7d''))
      = Inr (refresh_claims stub_library (kit ''7d'') 0 ''jti-r'' alice)
   \<and> map_of (users (kit ''7d''))
        (Subject (refresh_claims stub_library (kit ''7d'') 0 ''jti-r'' alice)) = Some alice
   \<and> (\<exists>resp. RefreshToken stub_library (kit ''7d'') hour ''jti-1'' ''jti-2''
                (signed stub_library (kit ''7d'')
                  (encode_registered (refresh_claims stub_library (kit ''7d'') 0 ''jti-r'' alice)))
              = Inr resp
          \<and> ExpiresIn resp = 0
          \<and> ValidateToken stub_library (kit ''7d'') (24 * hour) (AccessToken resp)
               \<noteq> Inl ErrInvalidToken
          \<and> ValidateToken stub_library (kit ''7d'') (25 * hour) (AccessToken resp)
               = Inl ErrInvalidToken)"
proof -
  have n: "ParseDuration stub_library (TokenExpiry (config (kit ''7d''))) = None"
    by (simp add: stub_library_def kit_def New_def)
  have f: "find (\<lambda>(k, u). Email u = ''alice@example.com'') (users (kit ''7d'')) = Some (''u1'', alice)"
    by (simp add: kit_users alice_def)
  have c: "CompareHashAndPassword stub_library (Password alice) ''pw12345678''"
    by (simp add: stub_library_def alice_def)
  have rd: "refresh_duration stub_library (kit ''7d'') = 7 * 24 * hour"
    by (simp add: refresh_duration_def stub_library_def kit_def New_def)
  have p: "ParseWithClaims stub_library hour
        (signed stub_library (kit ''7d'')
          (encode_registered (refresh_claims stub_library (kit ''7d'') 0 ''jti-r'' alice)))
        decode_registered id (keyFunc (kit ''7d''))
      = Inr (refresh_claims stub_library (kit ''7d'') 0 ''jti-r'' alice)"
    by (simp add: parse_registered_as_registered validate_refresh_claims rd Unix_def
        hour_def second_def)
  have m: "map_of (users (kit ''7d''))
        (Subject (refresh_claims stub_library (kit ''7d'') 0 ''jti-r'' alice)) = Some alice"
    by (simp add: kit_users refresh_claims_def alice_def)
  have t: "(0::int) \<le> 23 * hour" "(0::int) \<le> 24 * hour" "hour \<le> 24 * hour" "hour \<le> 25 * hour"
    "23 * hour < Unix (0 + 24 * hour) * second" "\<not> 24 * hour < Unix (0 + 24 * hour) * second"
    "24 * hour < Unix (hour + 24 * hour) * second" "\<not> 25 * hour < Unix (hour + 24 * hour) * second"
    by (simp_all add: Unix_def hour_def second_def)
  from unparsable_expiry_reports_zero [OF n, of "''alice@example.com''" "''u1''" alice
      "''pw12345678''" 0 "''jti-1''" "''jti-2''"] f c
  obtain resp where l: "LoginUser stub_library (kit ''7d'') 0 ''jti-1'' ''jti-2''
                ''alice@example.com'' ''pw12345678'' = Inr resp" "ExpiresIn resp = 0"
    and lv: "\<forall>now'. 0 \<le> now' \<longrightarrow>
                  (ValidateToken stub_library (kit ''7d'') now' (AccessToken resp) \<noteq> Inl ErrInvalidToken)
                    = (now' < Unix (0 + 24 * hour) * second)"
    by blast
  from unparsable_expiry_reports_zero [OF n, of _ _ _ _ hour "''jti-1''" "''jti-2''"
      "signed stub_library (kit ''7d'')
          (encode_registered (refresh_claims stub_library (kit ''7d'') 0 ''jti-r'' alice))"
      "refresh_claims stub_library (kit ''7d'') 0 ''jti-r'' alice" alice] p m
  obtain resp' where r: "RefreshToken stub_library (kit ''7d'') hour ''jti-1'' ''jti-2''
                (signed stub_library (kit ''7d'')
                  (encode_registered (refresh_claims stub_library (kit ''7d'') 0 ''jti-r'' alice)))
              = Inr resp'" "ExpiresIn resp' = 0"
    and rv: "\<forall>now'. hour \<le> now' \<longrightarrow>
                  (ValidateToken stub_library (kit ''7d'') now' (AccessToken resp') \<noteq> Inl ErrInvalidToken)
                    = (now' < Unix (hour + 24 * hour) * second)"
    by blast
  have "ValidateToken stub_library (kit ''7d'') (23 * hour) (AccessToken resp) \<noteq> Inl ErrInvalidToken"
    "ValidateToken stub_library (kit ''7d'') (24 * hour) (AccessToken resp) = Inl ErrInvalidToken"
    using lv t by blast+
  moreover have "ValidateToken stub_library (kit ''7d'') (24 * hour) (AccessToken resp') \<noteq> Inl ErrInvalidToken"
    "ValidateToken stub_library (kit ''7d'') (25 * hour) (AccessToken resp') = Inl ErrInvalidToken"
    using rv t by blast+
  ultimately show ?thesis
    using n f c p m l r by blast
qed

section \<open>Custom tokens\<close>

























section \<open>What crosses the boundary\<close>

lemma find_email_in_directory:
  "find (\<lambda>(k, u). Email u = email) us = Some (k, user) \<Longrightarrow> (k, user) \<in> set us"
  by (induction us) (auto split: if_splits)

lemma LoginUser_user:
  assumes "LoginUser L a now jti1 jti2 email password = Inr resp"
  shows "\<exists>(k, u) \<in> set (users a). RespUser resp = userToUserInfo u"
proof -
  from assms obtain k user where f: "find (\<lambda>(k, u). Email u = email) (users a) = Some (k, user)"
    by (auto simp: LoginUser_def split: option.splits)
  with assms have "RespUser resp = userToUserInfo user"
    by (auto simp: LoginUser_def split: if_splits sum.splits)
  with find_email_in_directory [OF f] show ?thesis by auto
qed

lemma GetUserByID_stored:
  "GetUserByID a userID = Inr user \<Longrightarrow> map_of (users a) userID = Some user"
  by (simp add: GetUserByID_def split: option.splits)

lemma RefreshToken_user:
  assumes "RefreshToken L a now jti1 jti2 t = Inr resp"
  shows "\<exists>(k, u) \<in> set (users a). RespUser resp = userToUserInfo u"
proof (cases "ParseWithClaims L now t decode_registered id (keyFunc a)")
  case (Inl err)
  with assms show ?thesis by (simp add: RefreshToken_def)
next
  case (Inr claims)
  show ?thesis
  proof (cases "GetUserByID a (Subject claims)")
    case (Inl err)
    with assms Inr show ?thesis by (simp add: RefreshToken_def)
  next
    case g: (Inr user)
    have "(Subject claims, user) \<in> set (users a)"
      using GetUserByID_stored [OF g] by (rule map_of_SomeD)
    moreover have "RespUser resp = userToUserInfo user"
      using assms Inr g by (auto simp: RefreshToken_def split: sum.splits)
    ultimately show ?thesis by auto
  qed
qed

lemma RegisterUser_info:
  assumes "RegisterUser L a now userID req = (Inr info, a')"
  shows "\<exists>u. map_of (users a') userID = Some u \<and> info = userToUserInfo u"
  using assms
  by (auto simp: RegisterUser_def Let_def update_conv' split: if_splits sum.splits)

lemma UpdateUser_info:
  assumes "UpdateUser a now userID updates = (Inr info, a')"
  shows "\<exists>u. map_of (users a') userID = Some u \<and> info = userToUserInfo u"
  using assms
  by (auto simp: UpdateUser_def Let_def update_conv' split: option.splits)

text \<open>
  C3, counterexample. \<open>GetUserByID\<close> returns the stored record, whose password field
  holds the hash.
\<close>

theorem GetUserByID_exposes_password_hash:
  "\<exists>u. GetUserByID (kit ''1h'') ''u1'' = Inr u \<and> Password u = ''hash:pw12345678''"
  by (simp add: GetUserByID_def kit_def alice_def)

text \<open>
  C3, as amended. \<open>RegisterUser\<close>, \<open>LoginUser\<close>, \<open>RefreshToken\<close>, \<open>UpdateUser\<close> and
  \<open>ListUsers\<close> return the public view \<open>userToUserInfo\<close> of a stored record, and that
  view carries no password hash: it is the same whatever the password field of the
  record holds. \<open>GetUserByID\<close> and \<open>GetUserByEmail\<close> return the stored record itself,
  password hash included.
\<close>

theorem public_view_boundary:
  "(RegisterUser L a now userID req = (Inr info, a') \<longrightarrow>
      (\<exists>u. map_of (users a') userID = Some u \<and> info = userToUserInfo u))
   \<and> (LoginUser L a now jti1 jti2 email password = Inr resp \<longrightarrow>
      (\<exists>(k, u) \<in> set (users a). RespUser resp = userToUserInfo u))
   \<and> (RefreshToken L a now jti1 jti2 t = Inr resp' \<longrightarrow>
      (\<exists>(k, u) \<in> set (users a). RespUser resp' = userToUserInfo u))
   \<and> (UpdateUser a now userID updates = (Inr info', a'') \<longrightarrow>
      (\<exists>u. map_of (users a'') userID = Some u \<and> info' = userToUserInfo u))
   \<and> ListUsers a = map (userToUserInfo \<circ> snd) (users a)
   \<and> (GetUserByID a userID = Inr user \<longrightarrow> map_of (users a) userID = Some user)
   \<and> (GetUserByEmail a email = Inr user' \<longrightarrow> (\<exists>k. (k, user') \<in> set (users a)))
   \<and> userToUserInfo (stored\<lparr>Password := hash\<rparr>) = userToUserInfo stored"
proof (intro conjI impI)
  show "userToUserInfo (stored\<lparr>Password := hash\<rparr>) = userToUserInfo stored"
    by (simp add: userToUserInfo_def)
  show "ListUsers a = map (userToUserInfo \<circ> snd) (users a)"
    by (simp add: ListUsers_def comp_def case_prod_unfold)
  show "map_of (users a) userID = Some user" if "GetUserByID a userID = Inr user"
    using that by (rule GetUserByID_stored)
  show "\<exists>k. (k, user') \<in> set (users a)" if "GetUserByEmail a email = Inr user'"
    using that by (auto simp: GetUserByEmail_def split: option.splits dest: find_email_in_directory)
qed (erule RegisterUser_info LoginUser_user RefreshToken_user UpdateUser_info)+

theorem public_view_boundary_witness:
  "(\<exists>info a'. RegisterUser stub_library (kit ''1h'') 5 ''u2''
        \<lparr>ReqEmail = ''bob@example.com'', ReqPassword = ''pw-of-bob'', ReqName = ''Bob'',
         ReqRole = [], ReqMetadata = []\<rparr> = (Inr info, a')
        \<and> (\<exists>u. map_of (users a') ''u2'' = Some u \<and> info = userToUserInfo u)
        \<and> InfoRole info = ''user'')
   \<and> (\<exists>resp. LoginUser stub_library (kit ''1h'') 0 ''jti-1'' ''jti-2''
                ''alice@example.com'' ''pw12345678'' = Inr resp
        \<and> (\<exists>(k, u) \<in> set (users (kit ''1h'')). RespUser resp = userToUserInfo u))
   \<and> (\<exists>resp. RefreshToken stub_library (kit ''1h'') hour ''jti-1'' ''jti-2''
                (signed stub_library (kit ''1h'')
                  (encode_registered (refresh_claims stub_library (kit ''1h'') 0 ''jti-r'' alice)))
              = Inr resp
        \<and> (\<exists>(k, u) \<in> set (users (kit ''1h'')). RespUser resp = userToUserInfo u))
   \<and> (\<exists>info a'. UpdateUser (kit ''1h'') 7 ''u1'' [''name'' \<mapsto> GString ''Al''] = (Inr info, a')
        \<and> (\<exists>u. map_of (users a') ''u1'' = Some u \<and> info = userToUserInfo u))
   \<and> ListUsers (kit ''1h'') = [userToUserInfo alice]
   \<and> GetUserByID (kit ''1h'') ''u1'' = Inr alice
   \<and> map_of (users (kit ''1h'')) ''u1'' = Some alice
   \<and> GetUserByEmail (kit ''1h'') ''alice@example.com'' = Inr alice
   \<and> (\<exists>k. (k, alice) \<in> set (users (kit ''1h'')))
   \<and> userToUserInfo (alice\<lparr>Password := ''another-hash''\<rparr>) = userToUserInfo alice"
proof -
  let ?req = "\<lparr>ReqEmail = ''bob@example.com'', ReqPassword = ''pw-of-bob'', ReqName = ''Bob'',
         ReqRole = [], ReqMetadata = []\<rparr>"
  let ?rt = "signed stub_library (kit ''1h'')
                  (encode_registered (refresh_claims stub_library (kit ''1h'') 0 ''jti-r'' alice))"
  note B = public_view_boundary [where L = stub_library and a = "kit ''1h''"]
  have c4: "\<not> (4::int) < MinCost \<and> \<not> MaxCost < 4"
    by (simp add: MinCost_def MaxCost_def)
  obtain info a' where reg: "RegisterUser stub_library (kit ''1h'') 5 ''u2'' ?req = (Inr info, a')"
    and role: "InfoRole info = ''user''"
    using c4
    by (simp add: RegisterUser_def HashPassword_def kit_def New_def alice_def stub_library_def
        userToUserInfo_def Let_def MaxPasswordLength_def)
  have r1: "\<exists>u. map_of (users a') ''u2'' = Some u \<and> info = userToUserInfo u"
    using B [of 5 "''u2''" ?req info a'] reg by blast
  have f: "find (\<lambda>(k, u). Email u = ''alice@example.com'') (users (kit ''1h'')) = Some (''u1'', alice)"
    by (simp add: kit_users alice_def)
  have c: "CompareHashAndPassword stub_library (Password alice) ''pw12345678''"
    by (simp add: stub_library_def alice_def)
  obtain resp where login: "LoginUser stub_library (kit ''1h'') 0 ''jti-1'' ''jti-2''
                ''alice@example.com'' ''pw12345678'' = Inr resp"
    using LoginUser_found [OF f c] by blast
  have r2: "\<exists>(k, u) \<in> set (users (kit ''1h'')). RespUser resp = userToUserInfo u"
    using B [of 0 _ _ _ _ "''jti-1''" "''jti-2''" "''alice@example.com''" "''pw12345678''" resp]
      login by blast
  have t: "(0::int) \<le> hour" "hour < Unix (0 + refresh_duration stub_library (kit ''1h'')) * second"
    by (simp_all add: stub_durations Unix_def hour_def second_def)
  have p: "ParseWithClaims stub_library hour ?rt decode_registered id (keyFunc (kit ''1h''))
      = Inr (refresh_claims stub_library (kit ''1h'') 0 ''jti-r'' alice)"
    using t by (simp add: parse_registered_as_registered validate_refresh_claims)
  have m: "map_of (users (kit ''1h'')) (Subject (refresh_claims stub_library (kit ''1h'') 0 ''jti-r'' alice))
      = Some alice"
    by (simp add: kit_users refresh_claims_def alice_def)
  obtain resp' where refresh: "RefreshToken stub_library (kit ''1h'') hour ''jti-1'' ''jti-2'' ?rt = Inr resp'"
    using RefreshToken_parsed [OF p, of "''jti-1''" "''jti-2''"] m by simp
  have r3: "\<exists>(k, u) \<in> set (users (kit ''1h'')). RespUser resp' = userToUserInfo u"
    using B [of hour _ _ _ _ "''jti-1''" "''jti-2''" _ _ _ ?rt resp'] refresh by blast
  obtain info' a'' where upd: "UpdateUser (kit ''1h'') 7 ''u1'' [''name'' \<mapsto> GString ''Al''] = (Inr info', a'')"
    by (simp add: UpdateUser_def kit_users Let_def)
  have r4: "\<exists>u. map_of (users a'') ''u1'' = Some u \<and> info' = userToUserInfo u"
    using B [of 7 "''u1''" _ _ _ _ _ _ _ _ _ _ "[''name'' \<mapsto> GString ''Al'']" info' a''] upd by blast
  have l: "ListUsers (kit ''1h'') = [userToUserInfo alice]"
    using B [of 0] by (simp add: kit_users)
  have g: "GetUserByID (kit ''1h'') ''u1'' = Inr alice"
    by (simp add: GetUserByID_def kit_users)
  have r5: "map_of (users (kit ''1h'')) ''u1'' = Some alice"
    using B [of 0 "''u1''" _ _ _ _ _ _ _ _ _ _ _ _ _ alice] g by blast
  have e: "GetUserByEmail (kit ''1h'') ''alice@example.com'' = Inr alice"
    by (simp add: GetUserByEmail_def kit_users alice_def)
  have r6: "\<exists>k. (k, alice) \<in> set (users (kit ''1h''))"
    using B [of 0 _ _ _ _ _ _ "''alice@example.com''" _ _ _ _ _ _ _ _ alice] e by blast
  have r7: "userToUserInfo (alice\<lparr>Password := ''another-hash''\<rparr>) = userToUserInfo alice"
    using B [of 0, where stored = alice and hash = "''another-hash''"] by blast
  show ?thesis
    using reg role r1 login r2 refresh r3 upd r4 l g r5 e r6 r7 by blast
qed

end
